theory Spec2Isabelle
  imports Complex_Main
begin

section \<open>JavaScript values\<close>

text \<open>
  A JavaScript number is a finite double, read here as the real number it denotes
  (rounding of floating-point arithmetic is not modelled), or one of NaN, +Infinity,
  -Infinity.
\<close>

datatype jsnum = Fin real | NaN | PosInf | NegInf

text \<open>
  The values the client and the relay meet: the results of \<open>JSON.parse\<close>, plus
  \<open>undefined\<close> for a property that is not there. An object is the list of its own
  properties.
\<close>

datatype jsval =
    Undefined
  | Null
  | Bool bool
  | Num jsnum
  | Str string
  | Arr "jsval list"
  | Obj "(string \<times> jsval) list"

section \<open>Weather summary (client)\<close>

text \<open>The table \<open>WEATHER_CODE_MAP\<close> of the client, in source order.\<close>

definition WEATHER_CODE_MAP :: "(int \<times> string) list" where
  "WEATHER_CODE_MAP =
    [(0, ''Clear sky''),
     (1, ''Mainly clear''),
     (2, ''Partly cloudy''),
     (3, ''Overcast''),
     (45, ''Fog''),
     (48, ''Depositing rime fog''),
     (51, ''Light drizzle''),
     (53, ''Moderate drizzle''),
     (55, ''Dense drizzle''),
     (56, ''Light freezing drizzle''),
     (57, ''Dense freezing drizzle''),
     (61, ''Slight rain''),
     (63, ''Moderate rain''),
     (65, ''Heavy rain''),
     (66, ''Light freezing rain''),
     (67, ''Heavy freezing rain''),
     (71, ''Slight snowfall''),
     (73, ''Moderate snowfall''),
     (75, ''Heavy snowfall''),
     (77, ''Snow grains''),
     (80, ''Slight rain showers''),
     (81, ''Moderate rain showers''),
     (82, ''Violent rain showers''),
     (85, ''Slight snow showers''),
     (86, ''Heavy snow showers''),
     (95, ''Thunderstorm''),
     (96, ''Thunderstorm with light hail''),
     (99, ''Thunderstorm with heavy hail'')]"

text \<open>
  \<open>WEATHER_CODE_MAP[code] || "Variable conditions"\<close> for an integer weather code: a
  missing key reads as \<open>undefined\<close>, and \<open>||\<close> replaces every falsy value (also an
  empty string) by the fallback label.
\<close>

definition summaryFor :: "int \<Rightarrow> string" where
  "summaryFor code =
     (case map_of WEATHER_CODE_MAP code of
        None \<Rightarrow> ''Variable conditions''
      | Some s \<Rightarrow> if s = [] then ''Variable conditions'' else s)"

section \<open>Compass direction (client)\<close>

text \<open>\<open>Math.round\<close>: the nearest integer, a tie going towards +Infinity.\<close>

definition Math_round :: "real \<Rightarrow> int" where
  "Math_round x = \<lfloor>x + 1 / 2\<rfloor>"

text \<open>
  The remainder operator \<open>%\<close> of JavaScript on integers: the result takes the sign of
  the dividend (truncated division), unlike \<open>mod\<close> of HOL.
\<close>

definition js_rem :: "int \<Rightarrow> int \<Rightarrow> int" where
  "js_rem a n = sgn a * (\<bar>a\<bar> mod \<bar>n\<bar>)"

definition directions :: "string list" where
  "directions = [''N'', ''NE'', ''E'', ''SE'', ''S'', ''SW'', ''W'', ''NW'']"

text \<open>
  \<open>toCardinal\<close>. The result \<open>None\<close> is JavaScript's \<open>undefined\<close>: what reading
  \<open>directions[index]\<close> gives when \<open>index\<close> is negative, NaN or otherwise not an index
  of the array.
\<close>

fun toCardinal :: "jsval \<Rightarrow> string option" where
  "toCardinal (Num (Fin degree)) =
     (let index = js_rem (Math_round (degree / 45)) 8
      in if 0 \<le> index \<and> nat index < length directions
         then Some (directions ! nat index) else None)"
| "toCardinal (Num _) = None"
| "toCardinal _ = Some ''--''"

section \<open>Host operations of the two programs\<close>

text \<open>
  An exception is the error object thrown; only its message is ever read.
\<close>

datatype js_error = Error string

fun message :: "js_error \<Rightarrow> string" where
  "message (Error m) = m"

text \<open>Sequencing of steps that may throw: the first exception ends the computation.\<close>

definition andThen :: "js_error + 'a \<Rightarrow> ('a \<Rightarrow> js_error + 'b) \<Rightarrow> js_error + 'b" where
  "andThen r f = (case r of Inl e \<Rightarrow> Inl e | Inr v \<Rightarrow> f v)"

text \<open>\<open>!!v\<close>: the values JavaScript takes as true in a condition.\<close>

fun truthy :: "jsval \<Rightarrow> bool" where
  "truthy Undefined = False"
| "truthy Null = False"
| "truthy (Bool b) = b"
| "truthy (Num n) = (n \<noteq> Fin 0 \<and> n \<noteq> NaN)"
| "truthy (Str s) = (s \<noteq> [])"
| "truthy (Arr xs) = True"
| "truthy (Obj kvs) = True"

text \<open>
  Reading a property \<open>v.k\<close>, for the property names the programs read (none of them
  is inherited from a prototype; \<open>length\<close> is read by \<open>lengthOf\<close>). Reading a
  property of \<open>null\<close> or \<open>undefined\<close> throws a TypeError, whose message is given
  in the wording of V8.
\<close>

definition cannotRead :: "string \<Rightarrow> string \<Rightarrow> js_error" where
  "cannotRead what k =
     Error (''Cannot read properties of '' @ what @ '' (reading '' @ [CHR 0x27] @ k @ [CHR 0x27] @ '')'')"

fun getProp :: "jsval \<Rightarrow> string \<Rightarrow> js_error + jsval" where
  "getProp Undefined k = Inl (cannotRead ''undefined'' k)"
| "getProp Null k = Inl (cannotRead ''null'' k)"
| "getProp (Obj kvs) k = Inr (case map_of kvs k of None \<Rightarrow> Undefined | Some v \<Rightarrow> v)"
| "getProp v k = Inr Undefined"

text \<open>\<open>Array.isArray\<close>, \<open>v.length\<close> and \<open>v[0]\<close> of a value that is neither null nor undefined.\<close>

fun isArray :: "jsval \<Rightarrow> bool" where
  "isArray (Arr xs) = True"
| "isArray v = False"

fun lengthOf :: "jsval \<Rightarrow> jsval" where
  "lengthOf (Arr xs) = Num (Fin (of_nat (length xs)))"
| "lengthOf (Str s) = Num (Fin (of_nat (length s)))"
| "lengthOf (Obj kvs) = (case map_of kvs ''length'' of None \<Rightarrow> Undefined | Some v \<Rightarrow> v)"
| "lengthOf v = Undefined"

fun firstOf :: "jsval \<Rightarrow> jsval" where
  "firstOf (Arr xs) = (case xs of [] \<Rightarrow> Undefined | x # _ \<Rightarrow> x)"
| "firstOf (Str s) = (case s of [] \<Rightarrow> Undefined | c # _ \<Rightarrow> Str [c])"
| "firstOf (Obj kvs) = (case map_of kvs ''0'' of None \<Rightarrow> Undefined | Some v \<Rightarrow> v)"
| "firstOf v = Undefined"

text \<open>
  The conversions of the language that are not written out here are parameters of the
  model: \<open>StringToNumber\<close> is \<open>Number(s)\<close> on a string, \<open>ObjectToNumber\<close> and
  \<open>ObjectToString\<close> are the conversions of an array or an object (which may throw),
  \<open>NumberToString\<close> is the decimal form of a number, \<open>toFixed\<close> is
  \<open>Number.prototype.toFixed\<close> and \<open>JSON_parse\<close> is \<open>JSON.parse\<close>.
\<close>

record host =
  StringToNumber :: "string \<Rightarrow> jsnum"
  ObjectToNumber :: "jsval \<Rightarrow> js_error + jsnum"
  ObjectToString :: "jsval \<Rightarrow> js_error + string"
  NumberToString :: "jsnum \<Rightarrow> string"
  toFixed :: "jsnum \<Rightarrow> nat \<Rightarrow> string"
  JSON_parse :: "string \<Rightarrow> js_error + jsval"

text \<open>\<open>Number(v)\<close>.\<close>

fun Number_of :: "host \<Rightarrow> jsval \<Rightarrow> js_error + jsnum" where
  "Number_of H Undefined = Inr NaN"
| "Number_of H Null = Inr (Fin 0)"
| "Number_of H (Bool b) = Inr (Fin (if b then 1 else 0))"
| "Number_of H (Num n) = Inr n"
| "Number_of H (Str s) = Inr (StringToNumber H s)"
| "Number_of H v = ObjectToNumber H v"

text \<open>The string of a value in a template literal, in \<open>+=\<close> on a string and in \<open>join\<close>.\<close>

fun String_of :: "host \<Rightarrow> jsval \<Rightarrow> js_error + string" where
  "String_of H Undefined = Inr ''undefined''"
| "String_of H Null = Inr ''null''"
| "String_of H (Bool b) = Inr (if b then ''true'' else ''false'')"
| "String_of H (Num n) = Inr (NumberToString H n)"
| "String_of H (Str s) = Inr s"
| "String_of H v = ObjectToString H v"

text \<open>The decimal digits of a status code.\<close>

fun showNat :: "nat \<Rightarrow> string" where
  "showNat n = (if n < 10 then [char_of (48 + n)] else showNat (n div 10) @ [char_of (48 + n mod 10)])"

section \<open>Strings\<close>

text \<open>
  A string is a list of characters; a character here is one byte, read as the code unit
  of the same number. White space (what \<open>trim\<close> removes and \<open>\s\<close> matches) is tab,
  line feed, vertical tab, form feed, carriage return, space and no-break space; the
  line terminators (what \<open>.\<close> does not match) are line feed and carriage return. The
  white space and line terminators of Unicode beyond one byte are outside this model.
\<close>

definition isSpace :: "char \<Rightarrow> bool" where
  "isSpace c = (c \<in> set [CHR 0x09, CHR 0x0A, CHR 0x0B, CHR 0x0C, CHR 0x0D, CHR 0x20, CHR 0xA0])"

definition isLineTerminator :: "char \<Rightarrow> bool" where
  "isLineTerminator c = (c = CHR 0x0A \<or> c = CHR 0x0D)"

definition trim :: "string \<Rightarrow> string" where
  "trim s = rev (dropWhile isSpace (rev (dropWhile isSpace s)))"

text \<open>\<open>s.split("\n")\<close>: the pieces between line feeds; an empty string has one empty piece.\<close>

fun split_lines :: "string \<Rightarrow> string list" where
  "split_lines [] = [[]]"
| "split_lines (c # cs) =
     (if c = CHR 0x0A then [] # split_lines cs
      else (case split_lines cs of l # ls \<Rightarrow> (c # l) # ls | [] \<Rightarrow> [[c]]))"

text \<open>\<open>xs.join(sep)\<close> on strings.\<close>

fun join :: "string \<Rightarrow> string list \<Rightarrow> string" where
  "join sep [] = []"
| "join sep [x] = x"
| "join sep (x # y # ys) = x @ sep @ join sep (y # ys)"

text \<open>\<open>s.includes(t)\<close>.\<close>

fun str_includes :: "string \<Rightarrow> string \<Rightarrow> bool" where
  "str_includes [] t = (t = [])"
| "str_includes (c # cs) t = (take (length t) (c # cs) = t \<or> str_includes cs t)"

section \<open>Number formatting and coordinate parsing (client)\<close>

definition formatNumber :: "host \<Rightarrow> jsval \<Rightarrow> nat \<Rightarrow> js_error + string" where
  "formatNumber H v digits =
     (if v = Null \<or> v = Undefined then Inr ''--''
      else andThen (Number_of H v) (\<lambda>n.
        if n = NaN then Inr ''--'' else Inr (toFixed H n digits)))"

text \<open>
  \<open>parseCoord\<close> on the text of an input field: the number, or \<open>None\<close> (JavaScript's
  \<open>null\<close>) when \<open>Number.isFinite\<close> rejects it.
\<close>

definition parseCoord :: "host \<Rightarrow> string \<Rightarrow> real option" where
  "parseCoord H v = (case StringToNumber H v of Fin r \<Rightarrow> Some r | _ \<Rightarrow> None)"

section \<open>The state of the page (client)\<close>

record coordinates =
  lat :: jsval
  lon :: jsval

text \<open>
  The stored weather object \<open>{...data.current, units: data.current_units,
  timezone: data.timezone}\<close>: the current conditions of the provider, its units and its
  time zone, as they came.
\<close>

record snapshot =
  conditions :: jsval
  units :: jsval
  timezone :: jsval

text \<open>The \<open>useState\<close> cells of \<open>App\<close>, with their initial values.\<close>

record app_state =
  status :: string
  error :: string
  coords :: "coordinates option"
  locationName :: string
  weather :: "snapshot option"
  advice :: jsval
  adviceStatus :: string
  adviceError :: string
  unit :: string
  cityQuery :: string
  cityStatus :: string
  cityError :: string
  manualLat :: string
  manualLon :: string

definition initial :: app_state where
  "initial = \<lparr> status = ''idle'', error = '''', coords = None, locationName = '''',
     weather = None, advice = Str '''', adviceStatus = ''idle'', adviceError = '''',
     unit = ''fahrenheit'', cityQuery = '''', cityStatus = ''idle'', cityError = '''',
     manualLat = '''', manualLon = '''' \<rparr>"

text \<open>The query of the forecast call, each parameter before it is written into the URL.\<close>

record forecast_request =
  latitude :: jsval
  longitude :: jsval
  current :: string
  timezone_param :: string
  temperature_unit :: string
  wind_speed_unit :: string

text \<open>The object \<open>weatherPayload\<close> posted to the relay; \<open>None\<close> is \<open>undefined\<close>.\<close>

record payload =
  summary :: string
  temperature :: string
  feelsLike :: string
  humidity :: string
  windSpeed :: string
  windDirection :: "string option"
  temperatureUnit :: jsval
  windUnit :: jsval
  time :: jsval
  payload_timezone :: jsval
  location :: string

text \<open>
  A call started by a handler. Each handler below is the part of the source function
  that runs up to its first \<open>await\<close> (or callback); the part after it is a function
  of the outcome of the call, and takes the variables the closure captured. The forecast
  call carries the \<open>locationLabel\<close> its continuation will use.
\<close>

datatype effect =
    GetCurrentPosition
  | FetchForecast forecast_request string
  | FetchCity string
  | FetchAdvice payload

text \<open>What \<open>fetch\<close> followed by \<open>response.json()\<close> or \<open>response.text()\<close> delivers.\<close>

record 'b response =
  ok :: bool
  status_code :: nat
  content_type :: "string option"
  body :: "js_error + 'b"

datatype 'b outcome = Rejected js_error | Responded "'b response"

section \<open>The weather flow (client)\<close>

text \<open>
  \<open>fetchWeather\<close> up to \<open>await fetch(url)\<close>: six state updates, then the request.
\<close>

definition fetchWeather ::
  "jsval \<Rightarrow> jsval \<Rightarrow> string \<Rightarrow> string \<Rightarrow> app_state \<Rightarrow> app_state \<times> effect option" where
  "fetchWeather la lo unitOverride locationLabel st =
     (st\<lparr> status := ''loading'', error := '''', advice := Str '''', adviceError := '''',
          adviceStatus := ''idle'', cityError := '''' \<rparr>,
      Some (FetchForecast \<lparr>
        latitude = la, longitude = lo,
        current = ''temperature_2m,apparent_temperature,relative_humidity_2m,weather_code,wind_speed_10m,wind_direction_10m'',
        timezone_param = ''auto'',
        temperature_unit = (if unitOverride = ''fahrenheit'' then ''fahrenheit'' else ''celsius''),
        wind_speed_unit = (if unitOverride = ''fahrenheit'' then ''mph'' else ''kmh'') \<rparr>
        locationLabel))"

text \<open>
  The weather code as a key of the table: a whole number is its own key; for any other
  value the summary is the fallback label (a code that is not a JSON number is outside
  this model).
\<close>

definition summaryText :: "jsval \<Rightarrow> string" where
  "summaryText code =
     (case code of
        Num (Fin r) \<Rightarrow> if r = of_int \<lfloor>r\<rfloor> then summaryFor \<lfloor>r\<rfloor> else ''Variable conditions''
      | _ \<Rightarrow> ''Variable conditions'')"

text \<open>\<open>fetchAdvice\<close> up to \<open>await fetch\<close>.\<close>

definition fetchAdvice :: "payload \<Rightarrow> app_state \<Rightarrow> app_state \<times> effect option" where
  "fetchAdvice p st =
     (st\<lparr> adviceStatus := ''loading'', adviceError := '''' \<rparr>, Some (FetchAdvice p))"

text \<open>The \<open>catch\<close> block of \<open>fetchWeather\<close>.\<close>

definition weatherFailed :: "js_error \<Rightarrow> app_state \<Rightarrow> app_state \<times> effect option" where
  "weatherFailed err st =
     (st\<lparr> status := ''error'',
          error := (if message err = [] then ''Unable to load weather.'' else message err) \<rparr>,
      None)"

text \<open>The object \<open>weatherPayload\<close> of \<open>fetchWeather\<close>, its fields evaluated in source order.\<close>

definition weatherPayload :: "host \<Rightarrow> jsval \<Rightarrow> jsval \<Rightarrow> string \<Rightarrow> string \<Rightarrow> js_error + payload" where
  "weatherPayload H data cur summary' resolved =
     andThen (getProp cur ''temperature_2m'') (\<lambda>t.
     andThen (formatNumber H t 1) (\<lambda>temperature'.
     andThen (getProp cur ''apparent_temperature'') (\<lambda>a.
     andThen (formatNumber H a 1) (\<lambda>feelsLike'.
     andThen (getProp cur ''relative_humidity_2m'') (\<lambda>h.
     andThen (formatNumber H h 0) (\<lambda>humidity'.
     andThen (getProp cur ''wind_speed_10m'') (\<lambda>w.
     andThen (formatNumber H w 1) (\<lambda>windSpeed'.
     andThen (getProp cur ''wind_direction_10m'') (\<lambda>d.
     andThen (getProp data ''current_units'') (\<lambda>u.
     andThen (getProp u ''temperature_2m'') (\<lambda>temperatureUnit'.
     andThen (getProp u ''wind_speed_10m'') (\<lambda>windUnit'.
     andThen (getProp cur ''time'') (\<lambda>time'.
     andThen (getProp data ''timezone'') (\<lambda>timezone'.
       Inr \<lparr> summary = summary', temperature = temperature', feelsLike = feelsLike',
             humidity = humidity', windSpeed = windSpeed', windDirection = toCardinal d,
             temperatureUnit = temperatureUnit', windUnit = windUnit', time = time',
             payload_timezone = timezone', location = resolved \<rparr>))))))))))))))"

text \<open>
  \<open>fetchWeather\<close> after \<open>await fetch(url)\<close>, for the request \<open>req\<close> and the label
  it was called with. First the steps that may throw before any state is written.
\<close>

definition resolvedLocation :: "host \<Rightarrow> forecast_request \<Rightarrow> string \<Rightarrow> js_error + string" where
  "resolvedLocation H req locationLabel =
     (if locationLabel \<noteq> [] then Inr locationLabel
      else andThen (formatNumber H (latitude req) 4) (\<lambda>a.
           andThen (formatNumber H (longitude req) 4) (\<lambda>b. Inr (a @ '', '' @ b))))"

definition readForecast ::
  "host \<Rightarrow> forecast_request \<Rightarrow> string \<Rightarrow> jsval outcome \<Rightarrow> js_error + (jsval \<times> jsval \<times> string \<times> string)" where
  "readForecast H req locationLabel out =
     (case out of
        Rejected err \<Rightarrow> Inl err
      | Responded r \<Rightarrow>
          if \<not> ok r then Inl (Error (''Weather service error ('' @ showNat (status_code r) @ '')''))
          else andThen (body r) (\<lambda>data.
               andThen (getProp data ''current'') (\<lambda>cur.
                 if \<not> truthy cur then Inl (Error ''Weather data unavailable.'')
                 else andThen (getProp cur ''weather_code'') (\<lambda>code.
                      andThen (resolvedLocation H req locationLabel) (\<lambda>resolved.
                        Inr (data, cur, summaryText code, resolved))))))"

text \<open>The object handed to \<open>setWeather\<close>, from the response alone.\<close>

definition storedWeather :: "jsval \<Rightarrow> jsval \<Rightarrow> snapshot" where
  "storedWeather data cur =
     \<lparr> conditions = cur,
       units = (case getProp data ''current_units'' of Inr u \<Rightarrow> u | Inl _ \<Rightarrow> Undefined),
       timezone = (case getProp data ''timezone'' of Inr z \<Rightarrow> z | Inl _ \<Rightarrow> Undefined) \<rparr>"

definition fetchWeather_done ::
  "host \<Rightarrow> forecast_request \<Rightarrow> string \<Rightarrow> jsval outcome \<Rightarrow> app_state \<Rightarrow> app_state \<times> effect option" where
  "fetchWeather_done H req locationLabel out st =
     (case readForecast H req locationLabel out of
        Inl err \<Rightarrow> weatherFailed err st
      | Inr (data, cur, summary', resolved) \<Rightarrow>
          (let st1 = st\<lparr> coords := Some \<lparr> lat = latitude req, lon = longitude req \<rparr>,
                         locationName := resolved,
                         weather := Some (storedWeather data cur),
                         status := ''ready'' \<rparr>
           in case weatherPayload H data cur summary' resolved of
                Inl err \<Rightarrow> weatherFailed err st1
              | Inr p \<Rightarrow> fetchAdvice p st1))"

section \<open>Location handlers (client)\<close>

text \<open>
  \<open>handleLocate\<close>, and the two callbacks of \<open>getCurrentPosition\<close>. The success callback
  uses the \<open>unit\<close> of the render in which \<open>handleLocate\<close> ran.
\<close>

definition handleLocate :: "bool \<Rightarrow> app_state \<Rightarrow> app_state \<times> effect option" where
  "handleLocate canGeolocate st =
     (if \<not> canGeolocate
      then (st\<lparr> status := ''error'', error := ''Geolocation is not supported in this browser.'' \<rparr>, None)
      else (st\<lparr> status := ''locating'', error := '''' \<rparr>, Some GetCurrentPosition))"

definition locateSuccess :: "string \<Rightarrow> jsval \<Rightarrow> jsval \<Rightarrow> app_state \<Rightarrow> app_state \<times> effect option" where
  "locateSuccess unit' la lo st = fetchWeather la lo unit' ''Current location'' st"

definition locateFailure :: "bool \<Rightarrow> app_state \<Rightarrow> app_state \<times> effect option" where
  "locateFailure permissionDenied st =
     (if permissionDenied
      then (st\<lparr> status := ''error'',
                error := ''Location access was blocked. Try the manual coordinates below.'' \<rparr>, None)
      else (st\<lparr> status := ''error'',
                error := ''Unable to retrieve your location. Try again or enter coordinates.'' \<rparr>, None))"

definition handleManualSubmit :: "host \<Rightarrow> app_state \<Rightarrow> app_state \<times> effect option" where
  "handleManualSubmit H st =
     (case (parseCoord H (manualLat st), parseCoord H (manualLon st)) of
        (Some latValue, Some lonValue) \<Rightarrow>
          fetchWeather (Num (Fin latValue)) (Num (Fin lonValue)) (unit st) '''' st
      | _ \<Rightarrow> (st\<lparr> status := ''error'', error := ''Enter a valid latitude and longitude.'' \<rparr>, None))"

definition handleUnitToggle :: "app_state \<Rightarrow> app_state \<times> effect option" where
  "handleUnitToggle st =
     (let next = (if unit st = ''fahrenheit'' then ''celsius'' else ''fahrenheit'');
          st1 = st\<lparr> unit := next \<rparr>
      in case coords st of
           Some c \<Rightarrow> fetchWeather (lat c) (lon c) next (locationName st) st1
         | None \<Rightarrow> (st1, None))"

section \<open>The city search (client)\<close>

definition handleCitySubmit :: "app_state \<Rightarrow> app_state \<times> effect option" where
  "handleCitySubmit st =
     (let query = trim (cityQuery st)
      in if query = []
         then (st\<lparr> cityStatus := ''error'', cityError := ''Enter a city name.'' \<rparr>, None)
         else (st\<lparr> cityStatus := ''loading'', cityError := '''' \<rparr>, Some (FetchCity query)))"

text \<open>The \<open>catch\<close> block of \<open>handleCitySubmit\<close>.\<close>

definition cityFailed :: "js_error \<Rightarrow> app_state \<Rightarrow> app_state \<times> effect option" where
  "cityFailed err st =
     (st\<lparr> cityStatus := ''error'',
          cityError := (if message err = [] then ''Unable to find that city.'' else message err) \<rparr>,
      None)"

text \<open>\<open>xs.filter(Boolean).join(", ")\<close> on values: each one kept is turned into a string.\<close>

fun joinValues :: "host \<Rightarrow> jsval list \<Rightarrow> js_error + string list" where
  "joinValues H [] = Inr []"
| "joinValues H (v # vs) =
     andThen (String_of H v) (\<lambda>s. andThen (joinValues H vs) (\<lambda>ss. Inr (s # ss)))"

text \<open>
  The steps of \<open>handleCitySubmit\<close> after \<open>await fetch\<close> that may throw: they give the
  label and the two coordinates of the first result.
\<close>

definition readCity :: "host \<Rightarrow> jsval outcome \<Rightarrow> js_error + (string \<times> jsval \<times> jsval)" where
  "readCity H out =
     (case out of
        Rejected err \<Rightarrow> Inl err
      | Responded r \<Rightarrow>
          if \<not> ok r then Inl (Error (''City lookup error ('' @ showNat (status_code r) @ '')''))
          else andThen (body r) (\<lambda>data.
               andThen (getProp data ''results'') (\<lambda>results.
                 if \<not> truthy results \<or> lengthOf results = Num (Fin 0)
                 then Inl (Error ''No matching city found.'')
                 else (let result = firstOf results in
                      andThen (getProp result ''name'') (\<lambda>name.
                      andThen (getProp result ''admin1'') (\<lambda>admin1.
                      andThen (getProp result ''country'') (\<lambda>country.
                      andThen (joinValues H (filter truthy [name, admin1, country])) (\<lambda>parts.
                      andThen (getProp result ''latitude'') (\<lambda>la.
                      andThen (getProp result ''longitude'') (\<lambda>lo.
                        Inr (join '', '' parts, la, lo)))))))))))"

text \<open>
  \<open>handleCitySubmit\<close> after \<open>await fetch\<close>; \<open>unit'\<close> is the \<open>unit\<close> of the render in
  which the form was submitted.
\<close>

definition handleCitySubmit_done :: "host \<Rightarrow> string \<Rightarrow> jsval outcome \<Rightarrow> app_state \<Rightarrow> app_state \<times> effect option" where
  "handleCitySubmit_done H unit' out st =
     (case readCity H out of
        Inl err \<Rightarrow> cityFailed err st
      | Inr (label, la, lo) \<Rightarrow>
          fetchWeather la lo unit' label (st\<lparr> cityQuery := label, cityStatus := ''ready'' \<rparr>))"

section \<open>The advice parser (client)\<close>

record AdviceItem =
  item_label :: string
  item_text :: string

text \<open>\<open>line.replace(/^[-*]\s*/, "")\<close>: a leading \<open>-\<close> or \<open>*\<close> goes, with all white space after it.\<close>

definition stripBullet :: "string \<Rightarrow> string" where
  "stripBullet line =
     (case line of
        [] \<Rightarrow> []
      | c # cs \<Rightarrow> if c = CHR ''-'' \<or> c = CHR ''*'' then dropWhile isSpace cs else line)"

text \<open>\<open>(.+)$\<close>: the rest of the string, when it is not empty and holds no line terminator.\<close>

definition restOfLine :: "string \<Rightarrow> string option" where
  "restOfLine s = (if s \<noteq> [] \<and> list_all (\<lambda>c. \<not> isLineTerminator c) s then Some s else None)"

text \<open>
  \<open>\s*(.+)$\<close>: the greedy \<open>\s*\<close> first takes a white-space character and goes on; when
  nothing matches that way it gives the character back and \<open>(.+)$\<close> starts here.
\<close>

fun spacesThenText :: "string \<Rightarrow> string option" where
  "spacesThenText [] = None"
| "spacesThenText (c # cs) =
     (if isSpace c
      then (case spacesThenText cs of Some t \<Rightarrow> Some t | None \<Rightarrow> restOfLine (c # cs))
      else restOfLine (c # cs))"

text \<open>\<open>\*\*:\s*(.+)$\<close>, what follows the label of the emphasis pattern.\<close>

definition boldTail :: "string \<Rightarrow> string option" where
  "boldTail s =
     (case s of
        a # b # c # r \<Rightarrow>
          if a = CHR ''*'' \<and> b = CHR ''*'' \<and> c = CHR '':'' then spacesThenText r else None
      | _ \<Rightarrow> None)"

text \<open>
  The lazy \<open>(.+?)\<close> of the emphasis pattern: \<open>acc\<close> is the label read so far; one more
  character that is not a line terminator is taken, and the label ends at the first
  place where the rest of the pattern matches.
\<close>

fun boldLabel :: "string \<Rightarrow> string \<Rightarrow> (string \<times> string) option" where
  "boldLabel acc [] = None"
| "boldLabel acc (c # cs) =
     (if isLineTerminator c then None
      else (case boldTail cs of
              Some t \<Rightarrow> Some (acc @ [c], t)
            | None \<Rightarrow> boldLabel (acc @ [c]) cs))"

text \<open>\<open>line.match(/^\*\*(.+?)\*\*:\s*(.+)$/)\<close>: the two groups, or \<open>None\<close> for \<open>null\<close>.\<close>

definition boldMatch :: "string \<Rightarrow> (string \<times> string) option" where
  "boldMatch line =
     (case line of
        a # b # r \<Rightarrow> if a = CHR ''*'' \<and> b = CHR ''*'' then boldLabel [] r else None
      | _ \<Rightarrow> None)"

text \<open>
  \<open>line.match(/^([^:]+):\s*(.+)$/)\<close>. The group \<open>[^:]+\<close> can only end at the first
  colon: a shorter run is followed by a character that is not a colon.
\<close>

definition colonMatch :: "string \<Rightarrow> (string \<times> string) option" where
  "colonMatch line =
     (let l = takeWhile (\<lambda>c. c \<noteq> CHR '':'') line;
          rest = dropWhile (\<lambda>c. c \<noteq> CHR '':'') line
      in if l = [] then None
         else (case rest of
                 [] \<Rightarrow> None
               | _ # r \<Rightarrow> (case spacesThenText r of None \<Rightarrow> None | Some t \<Rightarrow> Some (l, t))))"

text \<open>The last \<open>map\<close> of \<open>adviceItems\<close>: one item from one line.\<close>

definition parseLine :: "string \<Rightarrow> AdviceItem" where
  "parseLine line =
     (case boldMatch line of
        Some (l, t) \<Rightarrow> \<lparr> item_label = l, item_text = t \<rparr>
      | None \<Rightarrow>
          (case colonMatch line of
             Some (l, t) \<Rightarrow> \<lparr> item_label = l, item_text = t \<rparr>
           | None \<Rightarrow> \<lparr> item_label = [], item_text = line \<rparr>))"

text \<open>\<open>adviceItems\<close> for an advice that is a string.\<close>

definition adviceItems :: "string \<Rightarrow> AdviceItem list" where
  "adviceItems s =
     (if s = [] then []
      else map parseLine
             (map stripBullet
                (filter (\<lambda>line. line \<noteq> [])
                   (map trim (split_lines s)))))"

text \<open>
  \<open>adviceItems\<close> for the stored advice, which is whatever \<open>setAdvice\<close> was given: a
  falsy value gives no item, and a truthy value that is not a string has no \<open>split\<close>.
\<close>

definition adviceItemsOf :: "jsval \<Rightarrow> js_error + AdviceItem list" where
  "adviceItemsOf v =
     (if \<not> truthy v then Inr []
      else (case v of
              Str s \<Rightarrow> Inr (adviceItems s)
            | _ \<Rightarrow> Inl (Error ''advice.split is not a function'')))"

section \<open>The round trip of the advice parser\<close>

text \<open>
  The text reconstructed from a list of items, as the specification builds it: each
  item as its label, a colon, a space and its text, the lines joined by line feeds.
\<close>

definition reconstructed :: "AdviceItem list \<Rightarrow> string" where
  "reconstructed items = join [CHR 0x0A] (map (\<lambda>it. item_label it @ '': '' @ item_text it) items)"

text \<open>
  The lines that reach the last \<open>map\<close> of \<open>adviceItems\<close>, and the condition that each
  of them matched the emphasis pattern or the bare pattern.
\<close>

definition parsedLines :: "string \<Rightarrow> string list" where
  "parsedLines s = map stripBullet (filter (\<lambda>line. line \<noteq> []) (map trim (split_lines s)))"

definition everyLineLabelled :: "string \<Rightarrow> bool" where
  "everyLineLabelled s =
     list_all (\<lambda>line. boldMatch line \<noteq> None \<or> colonMatch line \<noteq> None) (parsedLines s)"

text \<open>
  A label that the reconstructed line gives back: it holds no colon and does not begin
  with white space, \<open>-\<close> or \<open>*\<close>.
\<close>

definition plainLabel :: "string \<Rightarrow> bool" where
  "plainLabel l =
     (CHR '':'' \<notin> set l \<and>
      (case l of [] \<Rightarrow> True | c # _ \<Rightarrow> \<not> isSpace c \<and> c \<noteq> CHR ''-'' \<and> c \<noteq> CHR ''*''))"

text \<open>
  An item that the round trip gives back unchanged: a label that is plain, not empty
  and free of line feeds; a text that is not empty, holds no line terminator and has no
  white space at either end.
\<close>

definition stableItem :: "AdviceItem \<Rightarrow> bool" where
  "stableItem it =
     (plainLabel (item_label it) \<and> item_label it \<noteq> [] \<and> CHR 0x0A \<notin> set (item_label it) \<and>
      item_text it \<noteq> [] \<and> list_all (\<lambda>c. \<not> isLineTerminator c) (item_text it) \<and>
      \<not> isSpace (hd (item_text it)) \<and> \<not> isSpace (last (item_text it)))"

section \<open>The advice flow (client)\<close>

text \<open>
  The variable \<open>data\<close> of \<open>fetchAdvice\<close>: the parsed body when the response declares
  JSON and the body is not empty and parses, the empty object otherwise.
\<close>


definition parsedData :: "host \<Rightarrow> string \<Rightarrow> string \<Rightarrow> jsval" where
  "parsedData H contentType rawText =
     (if str_includes contentType ''application/json''
      then (if rawText \<noteq> []
            then (case JSON_parse H rawText of Inr v \<Rightarrow> v | Inl _ \<Rightarrow> Obj [])
            else Obj [])
      else Obj [])"

text \<open>
  \<open>fetchAdvice\<close> after \<open>await fetch\<close> and \<open>await response.text()\<close>: the steps of the
  \<open>try\<close> block, which give the value handed to \<open>setAdvice\<close> or throw.
\<close>

definition readAdvice :: "host \<Rightarrow> string outcome \<Rightarrow> js_error + jsval" where
  "readAdvice H out =
     (case out of
        Rejected err \<Rightarrow> Inl err
      | Responded r \<Rightarrow>
          (let contentType = (case content_type r of Some c \<Rightarrow> c | None \<Rightarrow> [])
           in andThen (body r) (\<lambda>rawText.
             (let data = parsedData H contentType rawText
              in if \<not> ok r
                 then andThen (getProp data ''error'') (\<lambda>e.
                        if truthy e then andThen (String_of H e) (\<lambda>m. Inl (Error m))
                        else if rawText \<noteq> [] then Inl (Error rawText)
                        else Inl (Error ''Unable to generate suggestions. Make sure `node server.js` is running.''))
                 else andThen (getProp data ''suggestion'') (\<lambda>suggestion.
                        Inr (if truthy suggestion then suggestion else Str rawText))))))"

definition fetchAdvice_done :: "host \<Rightarrow> string outcome \<Rightarrow> app_state \<Rightarrow> app_state" where
  "fetchAdvice_done H out st =
     (case readAdvice H out of
        Inl err \<Rightarrow>
          st\<lparr> adviceStatus := ''error'',
              adviceError := (if message err = [] then ''Unable to generate suggestions.'' else message err) \<rparr>
      | Inr v \<Rightarrow> st\<lparr> advice := v, adviceStatus := ''ready'' \<rparr>)"

section \<open>The relay\<close>

text \<open>
  \<open>getApiKey\<close>: \<open>process.env.OPEN_AI_KEY || process.env.OPENAI_API_KEY\<close>, on the
  environment as it is after \<open>loadEnvFile\<close>; \<open>None\<close> is \<open>undefined\<close>.
\<close>

definition getApiKey :: "(string \<rightharpoonup> string) \<Rightarrow> string option" where
  "getApiKey env =
     (case env ''OPEN_AI_KEY'' of
        Some k \<Rightarrow> if k \<noteq> [] then Some k else env ''OPENAI_API_KEY''
      | None \<Rightarrow> env ''OPENAI_API_KEY'')"

text \<open>The payload of the call to the provider, and what the HTTPS request comes back with.\<close>

record provider_request =
  model :: string
  instructions :: string
  input :: string

datatype provider_outcome = RequestError js_error | Replied nat string

text \<open>
  \<open>callOpenAI\<close>. The provider is a parameter: it is given the key and the payload.
\<close>

definition callOpenAI ::
  "host \<Rightarrow> (string \<rightharpoonup> string) \<Rightarrow> (string \<Rightarrow> provider_request \<Rightarrow> provider_outcome) \<Rightarrow>
     provider_request \<Rightarrow> js_error + jsval" where
  "callOpenAI H env provider p =
     (case getApiKey env of
        None \<Rightarrow> Inl (Error ''OPEN_AI_KEY is missing in .env'')
      | Some apiKey \<Rightarrow>
          if apiKey = [] then Inl (Error ''OPEN_AI_KEY is missing in .env'')
          else (case provider apiKey p of
                  RequestError err \<Rightarrow> Inl err
                | Replied statusCode data \<Rightarrow>
                    if statusCode \<ge> 400
                    then Inl (Error (''OpenAI error ('' @ showNat statusCode @ ''): '' @ data))
                    else JSON_parse H data))"

text \<open>A loop \<open>xs.forEach\<close> whose body appends to the variable \<open>text\<close> and may throw.\<close>

fun appendEach :: "(string \<Rightarrow> 'a \<Rightarrow> js_error + string) \<Rightarrow> string \<Rightarrow> 'a list \<Rightarrow> js_error + string" where
  "appendEach f text [] = Inr text"
| "appendEach f text (x # xs) = andThen (f text x) (\<lambda>text'. appendEach f text' xs)"

text \<open>\<open>text += v\<close>.\<close>

definition appendValue :: "host \<Rightarrow> string \<Rightarrow> jsval \<Rightarrow> js_error + string" where
  "appendValue H text v = andThen (String_of H v) (\<lambda>s. Inr (text @ s))"

text \<open>The elements of an array.\<close>

fun elements :: "jsval \<Rightarrow> jsval list" where
  "elements (Arr xs) = xs"
| "elements v = []"

text \<open>The body of the inner loop of \<open>extractOutputText\<close>, over the parts of a content.\<close>

definition appendPart :: "host \<Rightarrow> string \<Rightarrow> jsval \<Rightarrow> js_error + string" where
  "appendPart H text part =
     (if \<not> truthy part then Inr text
      else andThen (getProp part ''type'') (\<lambda>ty.
        if ty = Str ''output_text'' \<or> ty = Str ''text''
        then andThen (getProp part ''text'') (\<lambda>v.
               appendValue H text (if truthy v then v else Str []))
        else Inr text))"

text \<open>The body of the outer loop of \<open>extractOutputText\<close>, over the items of the output.\<close>

definition appendItem :: "host \<Rightarrow> string \<Rightarrow> jsval \<Rightarrow> js_error + string" where
  "appendItem H text item =
     (if \<not> truthy item then Inr text
      else andThen (getProp item ''type'') (\<lambda>ty.
           andThen (getProp item ''content'') (\<lambda>content.
           andThen (if ty = Str ''message'' \<and> isArray content
                    then appendEach (appendPart H) text (elements content)
                    else Inr text) (\<lambda>text'.
           andThen (getProp item ''text'') (\<lambda>v.
             if ty = Str ''output_text'' \<and> truthy v then appendValue H text' v
             else Inr text')))))"

definition extractOutputText :: "host \<Rightarrow> jsval \<Rightarrow> js_error + string" where
  "extractOutputText H response =
     (if \<not> truthy response then Inr []
      else andThen (getProp response ''output_text'') (\<lambda>output_text.
        case output_text of
          Str s \<Rightarrow> Inr s
        | _ \<Rightarrow>
          andThen (getProp response ''output'') (\<lambda>output.
            if \<not> isArray output then Inr []
            else andThen (appendEach (appendItem H) [] (elements output)) (\<lambda>text.
                   Inr (trim text)))))"

text \<open>\<open>${weather.k}\<close> in a template literal, for the weather object \<open>w\<close>.\<close>

definition shown :: "host \<Rightarrow> jsval \<Rightarrow> string \<Rightarrow> js_error + string" where
  "shown H w k = andThen (getProp w k) (String_of H)"

definition buildPrompt :: "host \<Rightarrow> jsval \<Rightarrow> js_error + string" where
  "buildPrompt H w =
     andThen (shown H w ''temperature'') (\<lambda>temperature'.
     andThen (shown H w ''temperatureUnit'') (\<lambda>temperatureUnit1.
     andThen (shown H w ''feelsLike'') (\<lambda>feelsLike'.
     andThen (shown H w ''temperatureUnit'') (\<lambda>temperatureUnit2.
     andThen (shown H w ''windSpeed'') (\<lambda>windSpeed'.
     andThen (shown H w ''windUnit'') (\<lambda>windUnit'.
     andThen (shown H w ''windDirection'') (\<lambda>windDirection'.
     andThen (shown H w ''summary'') (\<lambda>summary'.
     andThen (shown H w ''humidity'') (\<lambda>humidity'.
     andThen (shown H w ''location'') (\<lambda>location'.
     andThen (shown H w ''time'') (\<lambda>time'.
     andThen (shown H w ''timezone'') (\<lambda>timezone'.
       Inr (join [CHR 0x0A]
         [''Weather details:'',
          ''Summary: '' @ summary',
          ''Temperature: '' @ temperature' @ '' '' @ temperatureUnit1,
          ''Feels like: '' @ feelsLike' @ '' '' @ temperatureUnit2,
          ''Humidity: '' @ humidity' @ ''%'',
          ''Wind: '' @ windSpeed' @ '' '' @ windUnit' @ '' '' @ windDirection',
          ''Location: '' @ location',
          ''Local time: '' @ time' @ '' ('' @ timezone' @ '')''])))))))))))))"

text \<open>What the server answers: a JSON body with a status, no content, or a static file.\<close>

datatype reply = Json nat jsval | NoContent | ServeFile string

text \<open>
  The branch of the server for \<open>POST /api/suggest\<close>; \<open>parsed\<close> is the result of
  \<open>parseJsonBody\<close>. The steps of the \<open>try\<close> block first.
\<close>

definition suggest :: "host \<Rightarrow> (string \<rightharpoonup> string) \<Rightarrow> (string \<Rightarrow> provider_request \<Rightarrow> provider_outcome) \<Rightarrow>
     js_error + jsval \<Rightarrow> js_error + reply" where
  "suggest H env provider parsed =
     andThen parsed (\<lambda>body.
       if \<not> truthy body then Inr (Json 400 (Obj [(''error'', Str ''Missing weather details.'')]))
       else andThen (getProp body ''weather'') (\<lambda>weather.
         if \<not> truthy weather then Inr (Json 400 (Obj [(''error'', Str ''Missing weather details.'')]))
         else andThen (buildPrompt H weather) (\<lambda>prompt.
              andThen (callOpenAI H env provider
                 \<lparr> model = ''gpt-4o-mini'',
                   instructions = ''You are a concise stylist. Suggest what to wear given the weather. Return exactly 4 bullet lines in this format: **Base Layer**: ... **Mid Layer**: ... **Outer Layer**: ... **Accessories**: ... Keep each line short. Avoid medical advice.'',
                   input = prompt \<rparr>) (\<lambda>response.
              andThen (extractOutputText H response) (\<lambda>suggestion.
                if suggestion = [] then Inr (Json 500 (Obj [(''error'', Str ''No suggestion returned.'')]))
                else Inr (Json 200 (Obj [(''suggestion'', Str suggestion)])))))))"

definition server :: "host \<Rightarrow> (string \<rightharpoonup> string) \<Rightarrow> (string \<Rightarrow> provider_request \<Rightarrow> provider_outcome) \<Rightarrow>
     string \<Rightarrow> string \<Rightarrow> js_error + jsval \<Rightarrow> reply" where
  "server H env provider method url parsed =
     (if method = ''OPTIONS'' then NoContent
      else if url = ''/api/suggest'' \<and> method = ''POST''
      then (case suggest H env provider parsed of
              Inr r \<Rightarrow> r
            | Inl err \<Rightarrow>
                Json 500 (Obj [(''error'', Str (if message err = [] then ''Server error.'' else message err))]))
      else ServeFile url)"

section \<open>Text extraction as the specification describes it\<close>

text \<open>
  The extraction in the words of the specification: the flattened text field when it is
  a string; otherwise the concatenation, in the order of the output list, of the text
  of the text-bearing content parts of the message-type items, and of nothing else.
\<close>

definition claimedPartText :: "jsval \<Rightarrow> string" where
  "claimedPartText part =
     (case (getProp part ''type'', getProp part ''text'') of
        (Inr ty, Inr (Str s)) \<Rightarrow> if ty = Str ''output_text'' \<or> ty = Str ''text'' then s else []
      | _ \<Rightarrow> [])"

definition claimedItemText :: "jsval \<Rightarrow> string" where
  "claimedItemText item =
     (case (getProp item ''type'', getProp item ''content'') of
        (Inr ty, Inr (Arr parts)) \<Rightarrow>
          if ty = Str ''message'' then concat (map claimedPartText parts) else []
      | _ \<Rightarrow> [])"

definition claimedOutputText :: "jsval \<Rightarrow> string" where
  "claimedOutputText response =
     (case getProp response ''output_text'' of
        Inr (Str s) \<Rightarrow> s
      | _ \<Rightarrow> (case getProp response ''output'' of
                 Inr (Arr items) \<Rightarrow> concat (map claimedItemText items)
               | _ \<Rightarrow> []))"

text \<open>
  The values that the code appends for one content part and for one output item, in
  order: the text of a part of type \<open>output_text\<close> or \<open>text\<close> (the empty string
  when that text is falsy); for an item, the fragments of its parts when it is a
  message with an array content, then its own text when its type is \<open>output_text\<close>
  and the text is truthy.
\<close>

definition partFragments :: "jsval \<Rightarrow> jsval list" where
  "partFragments part =
     (if \<not> truthy part then []
      else (case (getProp part ''type'', getProp part ''text'') of
              (Inr ty, Inr v) \<Rightarrow>
                if ty = Str ''output_text'' \<or> ty = Str ''text''
                then [if truthy v then v else Str []] else []
            | _ \<Rightarrow> []))"

definition itemFragments :: "jsval \<Rightarrow> jsval list" where
  "itemFragments item =
     (if \<not> truthy item then []
      else (case (getProp item ''type'', getProp item ''content'', getProp item ''text'') of
              (Inr ty, Inr content, Inr v) \<Rightarrow>
                (if ty = Str ''message'' \<and> isArray content
                 then concat (map partFragments (elements content)) else []) @
                (if ty = Str ''output_text'' \<and> truthy v then [v] else [])
            | _ \<Rightarrow> []))"

section \<open>Bounds of the data model\<close>

text \<open>
  The Coordinates of the specification: a latitude in [-90, 90] and a longitude in
  [-180, 180].
\<close>

definition inRange :: "real \<Rightarrow> real \<Rightarrow> jsval \<Rightarrow> bool" where
  "inRange lo hi v = (case v of Num (Fin r) \<Rightarrow> lo \<le> r \<and> r \<le> hi | _ \<Rightarrow> False)"

definition withinBounds :: "coordinates \<Rightarrow> bool" where
  "withinBounds c = (inRange (- 90) 90 (lat c) \<and> inRange (- 180) 180 (lon c))"

section \<open>Example inputs\<close>

text \<open>
  A host for the examples. Its conversions agree with JavaScript's on the arguments the
  examples use (\<open>Number("100")\<close> is 100, \<open>(100).toFixed(4)\<close> is "100.0000",
  \<open>JSON.parse\<close> of the body \<open>{"suggestion":""}\<close> is the object with that one
  property) and stand for nothing on other arguments.
\<close>

definition exampleHost :: host where
  "exampleHost =
     \<lparr> StringToNumber = (\<lambda>s. if s = ''100'' then Fin 100 else if s = ''200'' then Fin 200
                              else if s = ''37.7749'' then Fin (377749 / 10000)
                              else if s = ''-122.4194'' then Fin (- 1224194 / 10000) else NaN),
       ObjectToNumber = (\<lambda>v. Inr NaN),
       ObjectToString = (\<lambda>v. Inr ''[object Object]''),
       NumberToString = (\<lambda>n. if n = Fin 5 then ''5'' else ''NaN''),
       toFixed = (\<lambda>n digits. if n = Fin 100 \<and> digits = 4 then ''100.0000''
                               else if n = Fin 200 \<and> digits = 4 then ''200.0000'' else ''0''),
       JSON_parse = (\<lambda>s. if s = ''{'' @ [CHR 0x22] @ ''suggestion'' @ [CHR 0x22] @ '':'' @ [CHR 0x22, CHR 0x22] @ ''}''
                          then Inr (Obj [(''suggestion'', Str [])])
                          else Inl (Error ''Unexpected token'')) \<rparr>"

text \<open>The body \<open>{"suggestion":""}\<close>.\<close>

definition emptySuggestionBody :: string where
  "emptySuggestionBody = ''{'' @ [CHR 0x22] @ ''suggestion'' @ [CHR 0x22] @ '':'' @ [CHR 0x22, CHR 0x22] @ ''}''"

text \<open>The page after 100 and 200 were typed into the two coordinate fields.\<close>

definition typedFarCoordinates :: app_state where
  "typedFarCoordinates = initial\<lparr> manualLat := ''100'', manualLon := ''200'' \<rparr>"

text \<open>The page after 37.7749 and -122.4194 were typed into the two coordinate fields.\<close>

definition typedSanFrancisco :: app_state where
  "typedSanFrancisco = initial\<lparr> manualLat := ''37.7749'', manualLon := ''-122.4194'' \<rparr>"

text \<open>A successful forecast response.\<close>

definition forecastOk :: "jsval outcome" where
  "forecastOk =
     Responded \<lparr> ok = True, status_code = 200, content_type = Some ''application/json'',
       body = Inr (Obj [(''current'', Obj [(''weather_code'', Num (Fin 0))]),
                        (''current_units'', Obj []),
                        (''timezone'', Str ''GMT'')]) \<rparr>"

text \<open>
  A page that shows a weather in Fahrenheit for a resolved location, and the error of a
  city search that found nothing.
\<close>

definition resolvedPage :: app_state where
  "resolvedPage =
     initial\<lparr> status := ''ready'',
              coords := Some \<lparr> lat = Num (Fin 100), lon = Num (Fin 200) \<rparr>,
              locationName := ''100.0000, 200.0000'',
              weather := Some (storedWeather (Obj [(''timezone'', Str ''GMT'')])
                                 (Obj [(''temperature_2m'', Num (Fin 50))])),
              cityStatus := ''error'', cityError := ''No matching city found.'' \<rparr>"

text \<open>
  Two successful responses of the relay endpoint: one with the JSON body
  \<open>{"suggestion":""}\<close>, one with an empty body.
\<close>

definition emptySuggestionResponse :: "string outcome" where
  "emptySuggestionResponse =
     Responded \<lparr> ok = True, status_code = 200,
       content_type = Some ''application/json; charset=utf-8'', body = Inr emptySuggestionBody \<rparr>"

definition emptyBodyResponse :: "string outcome" where
  "emptyBodyResponse =
     Responded \<lparr> ok = True, status_code = 200,
       content_type = Some ''application/json; charset=utf-8'', body = Inr [] \<rparr>"

text \<open>
  Two responses of the provider without a flattened text field: one whose only output
  item is of type \<open>output_text\<close>, one whose message has a text with spaces around it.
\<close>

definition bareTextResponse :: jsval where
  "bareTextResponse = Obj [(''output'', Arr [Obj [(''type'', Str ''output_text''), (''text'', Str ''hi'')]])]"

definition paddedMessageResponse :: jsval where
  "paddedMessageResponse =
     Obj [(''output'',
       Arr [Obj [(''type'', Str ''message''),
                 (''content'', Arr [Obj [(''type'', Str ''output_text''), (''text'', Str '' hi '')]])]])]"

text \<open>A response of the provider with two messages and a reasoning item between them.\<close>

definition twoMessagesResponse :: jsval where
  "twoMessagesResponse =
     Obj [(''output'',
       Arr [Obj [(''type'', Str ''message''),
                 (''content'', Arr [Obj [(''type'', Str ''output_text''), (''text'', Str ''- **Base Layer**: tee '')],
                                    Obj [(''type'', Str ''refusal''), (''refusal'', Str ''no'')]])],
            Obj [(''type'', Str ''reasoning''), (''content'', Arr [Obj [(''type'', Str ''text''), (''text'', Str ''skipped'')]])],
            Obj [(''type'', Str ''message''),
                 (''content'', Arr [Obj [(''type'', Str ''text''), (''text'', Str ''and hat'')]])]])]"

text \<open>A request body with a weather object, an environment without a key, and a provider that is down.\<close>

definition weatherBody :: jsval where
  "weatherBody =
     Obj [(''weather'',
       Obj [(''summary'', Str ''Clear sky''), (''temperature'', Str ''50.0''), (''feelsLike'', Str ''48.0''),
            (''humidity'', Str ''40''), (''windSpeed'', Str ''5.0''), (''windDirection'', Str ''N''),
            (''temperatureUnit'', Str ''F''), (''windUnit'', Str ''mph''),
            (''time'', Str ''2024-01-01T00:00''), (''timezone'', Str ''GMT''), (''location'', Str ''Paris'')])]"

definition noKeyEnv :: "string \<rightharpoonup> string" where
  "noKeyEnv = [''PORT'' \<mapsto> ''8989'']"

definition providerDown :: "string \<Rightarrow> provider_request \<Rightarrow> provider_outcome" where
  "providerDown apiKey p = RequestError (Error ''connect ECONNREFUSED'')"

text \<open>A successful city search.\<close>

definition cityOk :: "jsval outcome" where
  "cityOk =
     Responded \<lparr> ok = True, status_code = 200, content_type = Some ''application/json'',
       body = Inr (Obj [(''results'',
                Arr [Obj [(''name'', Str ''Paris''), (''country'', Str ''France''),
                          (''latitude'', Num (Fin 48)), (''longitude'', Num (Fin 2))]])]) \<rparr>"

section \<open>Properties of the weather summary\<close>

lemma WEATHER_CODE_MAP_nonempty:
  "(code, s) \<in> set WEATHER_CODE_MAP \<Longrightarrow> s \<noteq> []"
  by (auto simp: WEATHER_CODE_MAP_def)

text \<open>
  Claim C1, as amended. For every weather code present in \<open>WEATHER_CODE_MAP\<close> the
  summary is exactly the mapped string, and for every code that is not a key of the
  table (999, for one) it is "Variable conditions". Code 2 is a key of the table: its
  summary is "Partly cloudy".
\<close>

theorem summaryFor_table:
  "(map_of WEATHER_CODE_MAP code = Some s \<longrightarrow> summaryFor code = s) \<and>
   (map_of WEATHER_CODE_MAP code = None \<longrightarrow> summaryFor code = ''Variable conditions'') \<and>
   summaryFor 2 = ''Partly cloudy'' \<and> summaryFor 999 = ''Variable conditions''"
proof (intro conjI impI)
  assume hit: "map_of WEATHER_CODE_MAP code = Some s"
  then have "(code, s) \<in> set WEATHER_CODE_MAP" by (rule map_of_SomeD)
  then have "s \<noteq> []" by (rule WEATHER_CODE_MAP_nonempty)
  with hit show "summaryFor code = s" by (simp add: summaryFor_def)
next
  assume "map_of WEATHER_CODE_MAP code = None"
  then show "summaryFor code = ''Variable conditions''" by (simp add: summaryFor_def)
next
  show "summaryFor 2 = ''Partly cloudy''"
    by (simp add: summaryFor_def WEATHER_CODE_MAP_def)
next
  show "summaryFor 999 = ''Variable conditions''"
    by (simp add: summaryFor_def WEATHER_CODE_MAP_def)
qed

theorem summaryFor_table_witness:
  "map_of WEATHER_CODE_MAP 95 = Some ''Thunderstorm'' \<and> summaryFor 95 = ''Thunderstorm'' \<and>
   map_of WEATHER_CODE_MAP 4 = None \<and> summaryFor 4 = ''Variable conditions''"
proof -
  have hit: "map_of WEATHER_CODE_MAP 95 = Some ''Thunderstorm''"
    by (simp add: WEATHER_CODE_MAP_def)
  have miss: "map_of WEATHER_CODE_MAP 4 = None"
    by (simp add: WEATHER_CODE_MAP_def)
  from hit summaryFor_table [of 95 "''Thunderstorm''"]
  have "summaryFor 95 = ''Thunderstorm''" by blast
  moreover from miss summaryFor_table [of 4 "[]"]
  have "summaryFor 4 = ''Variable conditions''" by blast
  ultimately show ?thesis using hit miss by blast
qed

text \<open>
  Claim C1 as the specification words it: code 2, named there as a code outside the
  table, is a key of the table and its summary is not the fallback label.
\<close>

theorem summaryFor_two_counterexample:
  "map_of WEATHER_CODE_MAP 2 \<noteq> None \<and> summaryFor 2 \<noteq> ''Variable conditions''"
  by (simp add: summaryFor_def WEATHER_CODE_MAP_def)

section \<open>Properties of the compass direction\<close>

lemma Math_round_shift: "Math_round ((d + 360 * of_int k) / 45) = Math_round (d / 45) + 8 * k"
proof -
  have "(d + 360 * of_int k) / 45 + 1 / 2 = (d / 45 + 1 / 2) + of_int (8 * k)"
    by (simp add: field_simps)
  then show ?thesis
    unfolding Math_round_def by (simp only: floor_add_int)
qed

lemma js_rem_nonneg: "0 \<le> a \<Longrightarrow> js_rem a 8 = a mod 8"
  by (cases "a = 0") (simp_all add: js_rem_def)

text \<open>
  The wrap of the angle holds where the rounded eighth of a turn is not negative on
  both sides, that is from -22.5 degrees upwards.
\<close>

lemma toCardinal_wraps_nonneg:
  assumes "- 45 / 2 \<le> d" and "- 45 / 2 \<le> d + 360 * of_int k"
  shows "toCardinal (Num (Fin (d + 360 * of_int k))) = toCardinal (Num (Fin d))"
proof -
  have a: "0 \<le> Math_round (d / 45)"
    using assms(1) unfolding Math_round_def by (simp add: field_simps)
  have b: "0 \<le> Math_round ((d + 360 * of_int k) / 45)"
    using assms(2) unfolding Math_round_def by (simp add: field_simps)
  have "js_rem (Math_round ((d + 360 * of_int k) / 45)) 8 = js_rem (Math_round (d / 45)) 8"
    using a b by (simp add: js_rem_nonneg) (simp add: Math_round_shift)
  then show ?thesis by simp
qed

text \<open>
  Claim C2 at a negative angle. \<open>toCardinal(0)\<close> is "N" and \<open>toCardinal(90)\<close> is "E",
  but -45 degrees and -45 + 360 * 1 = 315 degrees do not get the same direction: 315
  gives "NW", while -45 gives \<open>undefined\<close>, because \<open>Math.round(-1) % 8\<close> is -1 in
  JavaScript and \<open>directions[-1]\<close> does not exist.
\<close>

theorem toCardinal_negative_angle:
  "toCardinal (Num (Fin 0)) = Some ''N'' \<and>
   toCardinal (Num (Fin 90)) = Some ''E'' \<and>
   toCardinal (Num (Fin (- 45))) = None \<and>
   toCardinal (Num (Fin (- 45 + 360 * 1))) = Some ''NW''"
  by (simp add: Math_round_def js_rem_def directions_def)

section \<open>Properties of the weather flow\<close>

lemma fetchWeather_cityError: "cityError (fst (fetchWeather la lo u l st)) = []"
  by (simp add: fetchWeather_def)

lemma fetchWeather_request:
  "snd (fetchWeather la lo u l st) =
     Some (FetchForecast \<lparr> latitude = la, longitude = lo,
        current = ''temperature_2m,apparent_temperature,relative_humidity_2m,weather_code,wind_speed_10m,wind_direction_10m'',
        timezone_param = ''auto'',
        temperature_unit = (if u = ''fahrenheit'' then ''fahrenheit'' else ''celsius''),
        wind_speed_unit = (if u = ''fahrenheit'' then ''mph'' else ''kmh'') \<rparr> l)"
  by (simp add: fetchWeather_def)

lemma fetchWeather_keeps:
  "weather (fst (fetchWeather la lo u l st)) = weather st"
  "coords (fst (fetchWeather la lo u l st)) = coords st"
  "unit (fst (fetchWeather la lo u l st)) = unit st"
  by (simp_all add: fetchWeather_def)

text \<open>
  Claim C10. Every invocation of \<open>fetchWeather\<close> leaves the error text of the city
  search empty in the state in which the forecast call starts, and it always starts that
  call. So does each of the four triggers whenever it starts a forecast call: the
  geolocation success callback, the manual-coordinate submit, the success of a city
  search and the unit toggle.
\<close>

theorem weather_trigger_clears_cityError:
  "cityError (fst (fetchWeather la lo u l st)) = [] \<and>
   (\<exists>req. snd (fetchWeather la lo u l st) = Some (FetchForecast req l)) \<and>
   (snd (locateSuccess u la lo st) = Some (FetchForecast req1 l1) \<longrightarrow>
      cityError (fst (locateSuccess u la lo st)) = []) \<and>
   (snd (handleManualSubmit H st) = Some (FetchForecast req2 l2) \<longrightarrow>
      cityError (fst (handleManualSubmit H st)) = []) \<and>
   (snd (handleCitySubmit_done H u out st) = Some (FetchForecast req3 l3) \<longrightarrow>
      cityError (fst (handleCitySubmit_done H u out st)) = []) \<and>
   (snd (handleUnitToggle st) = Some (FetchForecast req4 l4) \<longrightarrow>
      cityError (fst (handleUnitToggle st)) = [])"
proof (intro conjI impI)
  show "cityError (fst (fetchWeather la lo u l st)) = []"
    by (rule fetchWeather_cityError)
  show "\<exists>req. snd (fetchWeather la lo u l st) = Some (FetchForecast req l)"
    by (simp add: fetchWeather_request)
  show "cityError (fst (locateSuccess u la lo st)) = []"
    by (simp add: locateSuccess_def fetchWeather_cityError)
next
  assume "snd (handleManualSubmit H st) = Some (FetchForecast req2 l2)"
  then show "cityError (fst (handleManualSubmit H st)) = []"
    by (auto simp: handleManualSubmit_def fetchWeather_cityError split: option.splits)
next
  assume "snd (handleCitySubmit_done H u out st) = Some (FetchForecast req3 l3)"
  then show "cityError (fst (handleCitySubmit_done H u out st)) = []"
    by (auto simp: handleCitySubmit_done_def cityFailed_def fetchWeather_cityError split: sum.splits)
next
  assume "snd (handleUnitToggle st) = Some (FetchForecast req4 l4)"
  then show "cityError (fst (handleUnitToggle st)) = []"
    by (auto simp: handleUnitToggle_def Let_def fetchWeather_cityError split: option.splits)
qed

lemma resolvedPage_toggle:
  "snd (handleUnitToggle resolvedPage) =
     Some (FetchForecast \<lparr> latitude = Num (Fin 100), longitude = Num (Fin 200),
        current = ''temperature_2m,apparent_temperature,relative_humidity_2m,weather_code,wind_speed_10m,wind_direction_10m'',
        timezone_param = ''auto'', temperature_unit = ''celsius'', wind_speed_unit = ''kmh'' \<rparr>
        ''100.0000, 200.0000'')"
  by (simp add: handleUnitToggle_def Let_def resolvedPage_def initial_def fetchWeather_request)

lemma typedFarCoordinates_submit:
  "snd (handleManualSubmit exampleHost typedFarCoordinates) =
     Some (FetchForecast \<lparr> latitude = Num (Fin 100), longitude = Num (Fin 200),
        current = ''temperature_2m,apparent_temperature,relative_humidity_2m,weather_code,wind_speed_10m,wind_direction_10m'',
        timezone_param = ''auto'', temperature_unit = ''fahrenheit'', wind_speed_unit = ''mph'' \<rparr> [])"
  by (simp add: handleManualSubmit_def typedFarCoordinates_def initial_def parseCoord_def
      exampleHost_def fetchWeather_request)

lemma cityOk_read: "readCity exampleHost cityOk = Inr (''Paris, France'', Num (Fin 48), Num (Fin 2))"
  by (simp add: readCity_def cityOk_def andThen_def)

lemma cityOk_done:
  "snd (handleCitySubmit_done exampleHost ''fahrenheit'' cityOk resolvedPage) =
     Some (FetchForecast \<lparr> latitude = Num (Fin 48), longitude = Num (Fin 2),
        current = ''temperature_2m,apparent_temperature,relative_humidity_2m,weather_code,wind_speed_10m,wind_direction_10m'',
        timezone_param = ''auto'', temperature_unit = ''fahrenheit'', wind_speed_unit = ''mph'' \<rparr>
        ''Paris, France'')"
  by (simp add: handleCitySubmit_done_def cityOk_read fetchWeather_request)

theorem weather_trigger_clears_cityError_witness:
  "cityError resolvedPage = ''No matching city found.'' \<and>
   snd (locateSuccess ''fahrenheit'' (Num (Fin 48)) (Num (Fin 2)) resolvedPage) \<noteq> None \<and>
   cityError (fst (locateSuccess ''fahrenheit'' (Num (Fin 48)) (Num (Fin 2)) resolvedPage)) = [] \<and>
   snd (handleManualSubmit exampleHost typedFarCoordinates) \<noteq> None \<and>
   cityError (fst (handleManualSubmit exampleHost typedFarCoordinates)) = [] \<and>
   snd (handleCitySubmit_done exampleHost ''fahrenheit'' cityOk resolvedPage) \<noteq> None \<and>
   cityError (fst (handleCitySubmit_done exampleHost ''fahrenheit'' cityOk resolvedPage)) = [] \<and>
   snd (handleUnitToggle resolvedPage) \<noteq> None \<and>
   cityError (fst (handleUnitToggle resolvedPage)) = []"
proof -
  have shown: "cityError resolvedPage = ''No matching city found.''"
    by (simp add: resolvedPage_def initial_def)
  have geo: "snd (locateSuccess ''fahrenheit'' (Num (Fin 48)) (Num (Fin 2)) resolvedPage) =
     Some (FetchForecast \<lparr> latitude = Num (Fin 48), longitude = Num (Fin 2),
        current = ''temperature_2m,apparent_temperature,relative_humidity_2m,weather_code,wind_speed_10m,wind_direction_10m'',
        timezone_param = ''auto'', temperature_unit = ''fahrenheit'', wind_speed_unit = ''mph'' \<rparr>
        ''Current location'')"
    by (simp add: locateSuccess_def fetchWeather_request)
  note all = weather_trigger_clears_cityError
    [where st = resolvedPage and H = exampleHost and u = "''fahrenheit''" and out = cityOk
       and la = "Num (Fin 48)" and lo = "Num (Fin 2)"]
  note manual = weather_trigger_clears_cityError
    [where st = typedFarCoordinates and H = exampleHost]
  from all geo have "cityError (fst (locateSuccess ''fahrenheit'' (Num (Fin 48)) (Num (Fin 2)) resolvedPage)) = []"
    by blast
  moreover from manual typedFarCoordinates_submit
  have "cityError (fst (handleManualSubmit exampleHost typedFarCoordinates)) = []"
    by blast
  moreover from all cityOk_done
  have "cityError (fst (handleCitySubmit_done exampleHost ''fahrenheit'' cityOk resolvedPage)) = []"
    by blast
  moreover from all resolvedPage_toggle
  have "cityError (fst (handleUnitToggle resolvedPage)) = []"
    by blast
  ultimately show ?thesis
    using shown geo typedFarCoordinates_submit cityOk_done resolvedPage_toggle by simp
qed

lemma fetchWeather_done_weather:
  "weather (fst (fetchWeather_done H req l out st)) = weather st \<or>
   (\<exists>r data cur. out = Responded r \<and> body r = Inr data \<and> getProp data ''current'' = Inr cur \<and>
      weather (fst (fetchWeather_done H req l out st)) = Some (storedWeather data cur))"
proof (cases "readForecast H req l out")
  case (Inl err)
  then show ?thesis by (simp add: fetchWeather_done_def weatherFailed_def)
next
  case (Inr t)
  obtain data cur s resolved where t: "t = (data, cur, s, resolved)"
    by (cases t) auto
  from Inr t obtain r where r: "out = Responded r" "body r = Inr data" "getProp data ''current'' = Inr cur"
    by (auto simp: readForecast_def andThen_def split: outcome.splits if_splits sum.splits)
  have "weather (fst (fetchWeather_done H req l out st)) = Some (storedWeather data cur)"
    using Inr t
    by (simp add: fetchWeather_done_def Let_def weatherFailed_def fetchAdvice_def split: sum.splits)
  with r show ?thesis by blast
qed

lemma fetchWeather_done_coords:
  "coords (fst (fetchWeather_done H req l out st)) = coords st \<or>
   coords (fst (fetchWeather_done H req l out st)) = Some \<lparr> lat = latitude req, lon = longitude req \<rparr>"
  by (simp add: fetchWeather_done_def Let_def weatherFailed_def fetchAdvice_def split: sum.splits prod.splits)

text \<open>
  Claim C5. When the unit is toggled while coordinates are stored, a forecast call is
  started that carries the stored coordinates and the tokens of the new unit (celsius
  and kmh when the unit was fahrenheit, fahrenheit and mph otherwise), and the new unit
  is stored. The toggle leaves the stored weather as it is, and when the call
  completes the stored weather is either still the same or the object built from the
  response of the provider: no stored value is converted on the page.
\<close>

theorem unit_toggle_refetches:
  "coords st = Some c \<longrightarrow>
     snd (handleUnitToggle st) =
       Some (FetchForecast \<lparr> latitude = lat c, longitude = lon c,
          current = ''temperature_2m,apparent_temperature,relative_humidity_2m,weather_code,wind_speed_10m,wind_direction_10m'',
          timezone_param = ''auto'',
          temperature_unit = (if unit st = ''fahrenheit'' then ''celsius'' else ''fahrenheit''),
          wind_speed_unit = (if unit st = ''fahrenheit'' then ''kmh'' else ''mph'') \<rparr>
          (locationName st)) \<and>
     unit (fst (handleUnitToggle st)) = (if unit st = ''fahrenheit'' then ''celsius'' else ''fahrenheit'') \<and>
     coords (fst (handleUnitToggle st)) = coords st \<and>
     weather (fst (handleUnitToggle st)) = weather st \<and>
     (weather (fst (fetchWeather_done H req l out st')) = weather st' \<or>
      (\<exists>r data cur. out = Responded r \<and> body r = Inr data \<and> getProp data ''current'' = Inr cur \<and>
         weather (fst (fetchWeather_done H req l out st')) = Some (storedWeather data cur)))"
proof
  assume c: "coords st = Some c"
  have "snd (handleUnitToggle st) =
       Some (FetchForecast \<lparr> latitude = lat c, longitude = lon c,
          current = ''temperature_2m,apparent_temperature,relative_humidity_2m,weather_code,wind_speed_10m,wind_direction_10m'',
          timezone_param = ''auto'',
          temperature_unit = (if unit st = ''fahrenheit'' then ''celsius'' else ''fahrenheit''),
          wind_speed_unit = (if unit st = ''fahrenheit'' then ''kmh'' else ''mph'') \<rparr>
          (locationName st))"
    using c by (simp add: handleUnitToggle_def Let_def fetchWeather_request)
  moreover have "unit (fst (handleUnitToggle st)) = (if unit st = ''fahrenheit'' then ''celsius'' else ''fahrenheit'')"
    using c by (simp add: handleUnitToggle_def Let_def fetchWeather_keeps)
  moreover have "coords (fst (handleUnitToggle st)) = coords st"
    using c by (simp add: handleUnitToggle_def Let_def fetchWeather_keeps)
  moreover have "weather (fst (handleUnitToggle st)) = weather st"
    using c by (simp add: handleUnitToggle_def Let_def fetchWeather_keeps)
  ultimately show "snd (handleUnitToggle st) =
       Some (FetchForecast \<lparr> latitude = lat c, longitude = lon c,
          current = ''temperature_2m,apparent_temperature,relative_humidity_2m,weather_code,wind_speed_10m,wind_direction_10m'',
          timezone_param = ''auto'',
          temperature_unit = (if unit st = ''fahrenheit'' then ''celsius'' else ''fahrenheit''),
          wind_speed_unit = (if unit st = ''fahrenheit'' then ''kmh'' else ''mph'') \<rparr>
          (locationName st)) \<and>
     unit (fst (handleUnitToggle st)) = (if unit st = ''fahrenheit'' then ''celsius'' else ''fahrenheit'') \<and>
     coords (fst (handleUnitToggle st)) = coords st \<and>
     weather (fst (handleUnitToggle st)) = weather st \<and>
     (weather (fst (fetchWeather_done H req l out st')) = weather st' \<or>
      (\<exists>r data cur. out = Responded r \<and> body r = Inr data \<and> getProp data ''current'' = Inr cur \<and>
         weather (fst (fetchWeather_done H req l out st')) = Some (storedWeather data cur)))"
    using fetchWeather_done_weather [of H req l out st'] by blast
qed

theorem unit_toggle_refetches_witness:
  "coords resolvedPage = Some \<lparr> lat = Num (Fin 100), lon = Num (Fin 200) \<rparr> \<and>
   unit resolvedPage = ''fahrenheit'' \<and>
   snd (handleUnitToggle resolvedPage) =
     Some (FetchForecast \<lparr> latitude = Num (Fin 100), longitude = Num (Fin 200),
        current = ''temperature_2m,apparent_temperature,relative_humidity_2m,weather_code,wind_speed_10m,wind_direction_10m'',
        timezone_param = ''auto'', temperature_unit = ''celsius'', wind_speed_unit = ''kmh'' \<rparr>
        ''100.0000, 200.0000'') \<and>
   unit (fst (handleUnitToggle resolvedPage)) = ''celsius'' \<and>
   weather (fst (handleUnitToggle resolvedPage)) = weather resolvedPage"
proof -
  have c: "coords resolvedPage = Some \<lparr> lat = Num (Fin 100), lon = Num (Fin 200) \<rparr>"
    by (simp add: resolvedPage_def initial_def)
  have u: "unit resolvedPage = ''fahrenheit''"
    by (simp add: resolvedPage_def initial_def)
  have n: "locationName resolvedPage = ''100.0000, 200.0000''"
    by (simp add: resolvedPage_def initial_def)
  from c unit_toggle_refetches [of resolvedPage "\<lparr> lat = Num (Fin 100), lon = Num (Fin 200) \<rparr>"]
  show ?thesis using u n by simp
qed

section \<open>Properties of the stored coordinates\<close>

text \<open>
  Claim C9, as amended. A manual-coordinate submit starts a forecast call only when
  both input texts convert to finite numbers, and the call carries exactly these two
  numbers; whatever a forecast call returns, the stored coordinates afterwards are
  either the ones stored before or the latitude and longitude that the call carried.
  No bound on latitude or longitude is checked.
\<close>

theorem manual_coordinates_finite:
  "(snd (handleManualSubmit H st) = Some (FetchForecast req l) \<longrightarrow>
      (\<exists>la lo. StringToNumber H (manualLat st) = Fin la \<and> StringToNumber H (manualLon st) = Fin lo \<and>
         latitude req = Num (Fin la) \<and> longitude req = Num (Fin lo))) \<and>
   (coords (fst (fetchWeather_done H req l out st')) = coords st' \<or>
    coords (fst (fetchWeather_done H req l out st')) = Some \<lparr> lat = latitude req, lon = longitude req \<rparr>)"
proof (intro conjI impI)
  assume started: "snd (handleManualSubmit H st) = Some (FetchForecast req l)"
  then obtain la lo where p: "parseCoord H (manualLat st) = Some la" "parseCoord H (manualLon st) = Some lo"
    by (auto simp: handleManualSubmit_def split: option.splits)
  then have n: "StringToNumber H (manualLat st) = Fin la" "StringToNumber H (manualLon st) = Fin lo"
    by (auto simp: parseCoord_def split: jsnum.splits)
  from started p have "latitude req = Num (Fin la)" "longitude req = Num (Fin lo)"
    by (auto simp: handleManualSubmit_def fetchWeather_request)
  with n show "\<exists>la lo. StringToNumber H (manualLat st) = Fin la \<and> StringToNumber H (manualLon st) = Fin lo \<and>
         latitude req = Num (Fin la) \<and> longitude req = Num (Fin lo)"
    by blast
next
  show "coords (fst (fetchWeather_done H req l out st')) = coords st' \<or>
    coords (fst (fetchWeather_done H req l out st')) = Some \<lparr> lat = latitude req, lon = longitude req \<rparr>"
    by (rule fetchWeather_done_coords)
qed

lemma typedSanFrancisco_submit:
  "snd (handleManualSubmit exampleHost typedSanFrancisco) =
     Some (FetchForecast \<lparr> latitude = Num (Fin (377749 / 10000)), longitude = Num (Fin (- 1224194 / 10000)),
        current = ''temperature_2m,apparent_temperature,relative_humidity_2m,weather_code,wind_speed_10m,wind_direction_10m'',
        timezone_param = ''auto'', temperature_unit = ''fahrenheit'', wind_speed_unit = ''mph'' \<rparr> [])"
  by (simp add: handleManualSubmit_def typedSanFrancisco_def initial_def parseCoord_def
      exampleHost_def fetchWeather_request)

theorem manual_coordinates_finite_witness:
  "snd (handleManualSubmit exampleHost typedSanFrancisco) =
     Some (FetchForecast \<lparr> latitude = Num (Fin (377749 / 10000)), longitude = Num (Fin (- 1224194 / 10000)),
        current = ''temperature_2m,apparent_temperature,relative_humidity_2m,weather_code,wind_speed_10m,wind_direction_10m'',
        timezone_param = ''auto'', temperature_unit = ''fahrenheit'', wind_speed_unit = ''mph'' \<rparr> []) \<and>
   (\<exists>la lo. StringToNumber exampleHost (manualLat typedSanFrancisco) = Fin la \<and>
            StringToNumber exampleHost (manualLon typedSanFrancisco) = Fin lo)"
proof -
  note finite = manual_coordinates_finite
    [where H = exampleHost and st = typedSanFrancisco and l = "[]" and
       req = "\<lparr> latitude = Num (Fin (377749 / 10000)), longitude = Num (Fin (- 1224194 / 10000)),
        current = ''temperature_2m,apparent_temperature,relative_humidity_2m,weather_code,wind_speed_10m,wind_direction_10m'',
        timezone_param = ''auto'', temperature_unit = ''fahrenheit'', wind_speed_unit = ''mph'' \<rparr>"]
  from typedSanFrancisco_submit finite show ?thesis by blast
qed

text \<open>
  Claim C9 as the specification words it. With 100 and 200 typed into the coordinate
  fields, the submit starts a forecast call for latitude 100 and longitude 200, and a
  successful response to it stores these coordinates, which are outside the bounds.
\<close>

theorem coordinates_bounds_counterexample:
  "snd (handleManualSubmit exampleHost typedFarCoordinates) =
     Some (FetchForecast \<lparr> latitude = Num (Fin 100), longitude = Num (Fin 200),
        current = ''temperature_2m,apparent_temperature,relative_humidity_2m,weather_code,wind_speed_10m,wind_direction_10m'',
        timezone_param = ''auto'', temperature_unit = ''fahrenheit'', wind_speed_unit = ''mph'' \<rparr> []) \<and>
   coords (fst (fetchWeather_done exampleHost
      \<lparr> latitude = Num (Fin 100), longitude = Num (Fin 200),
        current = ''temperature_2m,apparent_temperature,relative_humidity_2m,weather_code,wind_speed_10m,wind_direction_10m'',
        timezone_param = ''auto'', temperature_unit = ''fahrenheit'', wind_speed_unit = ''mph'' \<rparr> []
      forecastOk (fst (handleManualSubmit exampleHost typedFarCoordinates))))
     = Some \<lparr> lat = Num (Fin 100), lon = Num (Fin 200) \<rparr> \<and>
   \<not> withinBounds \<lparr> lat = Num (Fin 100), lon = Num (Fin 200) \<rparr>"
proof (intro conjI)
  show "snd (handleManualSubmit exampleHost typedFarCoordinates) =
     Some (FetchForecast \<lparr> latitude = Num (Fin 100), longitude = Num (Fin 200),
        current = ''temperature_2m,apparent_temperature,relative_humidity_2m,weather_code,wind_speed_10m,wind_direction_10m'',
        timezone_param = ''auto'', temperature_unit = ''fahrenheit'', wind_speed_unit = ''mph'' \<rparr> [])"
    by (rule typedFarCoordinates_submit)
  have "readForecast exampleHost
      \<lparr> latitude = Num (Fin 100), longitude = Num (Fin 200),
        current = ''temperature_2m,apparent_temperature,relative_humidity_2m,weather_code,wind_speed_10m,wind_direction_10m'',
        timezone_param = ''auto'', temperature_unit = ''fahrenheit'', wind_speed_unit = ''mph'' \<rparr> [] forecastOk
     = Inr (Obj [(''current'', Obj [(''weather_code'', Num (Fin 0))]), (''current_units'', Obj []), (''timezone'', Str ''GMT'')],
            Obj [(''weather_code'', Num (Fin 0))], summaryText (Num (Fin 0)), ''100.0000, 200.0000'')"
    by (simp add: readForecast_def forecastOk_def andThen_def resolvedLocation_def formatNumber_def exampleHost_def)
  then show "coords (fst (fetchWeather_done exampleHost
      \<lparr> latitude = Num (Fin 100), longitude = Num (Fin 200),
        current = ''temperature_2m,apparent_temperature,relative_humidity_2m,weather_code,wind_speed_10m,wind_direction_10m'',
        timezone_param = ''auto'', temperature_unit = ''fahrenheit'', wind_speed_unit = ''mph'' \<rparr> []
      forecastOk (fst (handleManualSubmit exampleHost typedFarCoordinates))))
     = Some \<lparr> lat = Num (Fin 100), lon = Num (Fin 200) \<rparr>"
    by (simp add: fetchWeather_done_def Let_def weatherFailed_def fetchAdvice_def split: sum.splits)
  show "\<not> withinBounds \<lparr> lat = Num (Fin 100), lon = Num (Fin 200) \<rparr>"
    by (simp add: withinBounds_def inRange_def)
qed

section \<open>Properties of the advice flow\<close>

lemma adviceItemsOf_empty: "adviceItemsOf (Str []) = Inr []"
  by (simp add: adviceItemsOf_def)

lemma parsedData_empty: "parsedData H ct [] = Obj []"
  by (simp add: parsedData_def)

lemma fetchAdvice_done_falsy:
  assumes "ok r" and "body r = Inr rawText"
    and "getProp (parsedData H (case content_type r of Some c \<Rightarrow> c | None \<Rightarrow> []) rawText) ''suggestion''
           = Inr suggestion"
    and "\<not> truthy suggestion"
  shows "fetchAdvice_done H (Responded r) st = st\<lparr> advice := Str rawText, adviceStatus := ''ready'' \<rparr>"
  using assms by (simp add: fetchAdvice_done_def readAdvice_def andThen_def Let_def)

text \<open>
  Claim C6, as amended. When the advice request completes with a successful status and
  an empty body, the stored advice is the empty string and the advice status is
  "ready": the flow does not enter the error state, the error text is not touched, and
  the advice has no item, so that the page shows its help message. When the status is
  successful and the \<open>suggestion\<close> field of the parsed body is falsy (an empty string,
  for one) the status is "ready" as well, and the stored advice is the raw text of the
  body.
\<close>

theorem advice_success_empty:
  "(ok r \<and> body r = Inr [] \<longrightarrow>
      fetchAdvice_done H (Responded r) st = st\<lparr> advice := Str [], adviceStatus := ''ready'' \<rparr> \<and>
      adviceItemsOf (advice (fetchAdvice_done H (Responded r) st)) = Inr []) \<and>
   (ok r \<and> body r = Inr rawText \<and>
    getProp (parsedData H (case content_type r of Some c \<Rightarrow> c | None \<Rightarrow> []) rawText) ''suggestion''
      = Inr suggestion \<and> \<not> truthy suggestion \<longrightarrow>
      fetchAdvice_done H (Responded r) st = st\<lparr> advice := Str rawText, adviceStatus := ''ready'' \<rparr>)"
proof (intro conjI impI)
  assume a: "ok r \<and> body r = Inr []"
  have "getProp (parsedData H (case content_type r of Some c \<Rightarrow> c | None \<Rightarrow> []) []) ''suggestion''
          = Inr Undefined"
    by (simp add: parsedData_empty)
  with a show res: "fetchAdvice_done H (Responded r) st = st\<lparr> advice := Str [], adviceStatus := ''ready'' \<rparr>"
    by (simp add: fetchAdvice_done_falsy)
  show "adviceItemsOf (advice (fetchAdvice_done H (Responded r) st)) = Inr []"
    by (simp add: res adviceItemsOf_empty)
next
  assume "ok r \<and> body r = Inr rawText \<and>
    getProp (parsedData H (case content_type r of Some c \<Rightarrow> c | None \<Rightarrow> []) rawText) ''suggestion''
      = Inr suggestion \<and> \<not> truthy suggestion"
  then show "fetchAdvice_done H (Responded r) st = st\<lparr> advice := Str rawText, adviceStatus := ''ready'' \<rparr>"
    by (simp add: fetchAdvice_done_falsy)
qed

lemma emptySuggestion_data:
  "parsedData exampleHost ''application/json; charset=utf-8'' emptySuggestionBody
     = Obj [(''suggestion'', Str [])]"
  by (simp add: parsedData_def emptySuggestionBody_def exampleHost_def)

theorem advice_success_empty_witness:
  "fetchAdvice_done exampleHost emptyBodyResponse initial
     = initial\<lparr> advice := Str [], adviceStatus := ''ready'' \<rparr> \<and>
   adviceItemsOf (advice (fetchAdvice_done exampleHost emptyBodyResponse initial)) = Inr [] \<and>
   fetchAdvice_done exampleHost emptySuggestionResponse initial
     = initial\<lparr> advice := Str emptySuggestionBody, adviceStatus := ''ready'' \<rparr>"
proof -
  let ?e = "\<lparr> ok = True, status_code = 200,
       content_type = Some ''application/json; charset=utf-8'', body = Inr [] \<rparr> :: string response"
  let ?s = "\<lparr> ok = True, status_code = 200,
       content_type = Some ''application/json; charset=utf-8'', body = Inr emptySuggestionBody \<rparr> :: string response"
  have e: "ok ?e \<and> body ?e = Inr []" by simp
  have s: "ok ?s \<and> body ?s = Inr emptySuggestionBody \<and>
    getProp (parsedData exampleHost (case content_type ?s of Some c \<Rightarrow> c | None \<Rightarrow> []) emptySuggestionBody)
      ''suggestion'' = Inr (Str []) \<and> \<not> truthy (Str [])"
    by (simp add: emptySuggestion_data)
  from e advice_success_empty [where r = ?e and H = exampleHost and st = initial]
  have "fetchAdvice_done exampleHost (Responded ?e) initial
          = initial\<lparr> advice := Str [], adviceStatus := ''ready'' \<rparr> \<and>
        adviceItemsOf (advice (fetchAdvice_done exampleHost (Responded ?e) initial)) = Inr []"
    by blast
  moreover from s advice_success_empty
    [where r = ?s and H = exampleHost and st = initial and rawText = emptySuggestionBody and suggestion = "Str []"]
  have "fetchAdvice_done exampleHost (Responded ?s) initial
          = initial\<lparr> advice := Str emptySuggestionBody, adviceStatus := ''ready'' \<rparr>"
    by blast
  ultimately show ?thesis
    unfolding emptyBodyResponse_def emptySuggestionResponse_def by blast
qed

lemma emptySuggestionBody_items:
  "adviceItems emptySuggestionBody =
     [\<lparr> item_label = ''{'' @ [CHR 0x22] @ ''suggestion'' @ [CHR 0x22],
        item_text = [CHR 0x22, CHR 0x22] @ ''}'' \<rparr>]"
  by (simp add: emptySuggestionBody_def adviceItems_def trim_def isSpace_def stripBullet_def
      parseLine_def boldMatch_def colonMatch_def restOfLine_def isLineTerminator_def)

text \<open>
  Claim C6 as the specification words it. The response has a successful status and the
  body \<open>{"suggestion":""}\<close>, whose suggestion string is empty. The advice status
  becomes "ready", but the stored advice is the text of the body, not the empty string,
  and it has one item, so the page shows a row and not its help message.
\<close>

theorem advice_empty_suggestion_counterexample:
  "adviceStatus (fetchAdvice_done exampleHost emptySuggestionResponse initial) = ''ready'' \<and>
   advice (fetchAdvice_done exampleHost emptySuggestionResponse initial) = Str emptySuggestionBody \<and>
   advice (fetchAdvice_done exampleHost emptySuggestionResponse initial) \<noteq> Str [] \<and>
   adviceItemsOf (advice (fetchAdvice_done exampleHost emptySuggestionResponse initial)) \<noteq> Inr []"
proof -
  have d: "fetchAdvice_done exampleHost emptySuggestionResponse initial
             = initial\<lparr> advice := Str emptySuggestionBody, adviceStatus := ''ready'' \<rparr>"
    by (simp add: emptySuggestionResponse_def fetchAdvice_done_falsy [where suggestion = "Str []"]
        emptySuggestion_data)
  have n: "emptySuggestionBody \<noteq> []"
    by (simp add: emptySuggestionBody_def)
  show ?thesis
    using n by (simp add: d adviceItemsOf_def emptySuggestionBody_items)
qed

section \<open>Properties of the relay\<close>

lemma andThen_simps [simp]:
  "andThen (Inl e) f = Inl e"
  "andThen (Inr v) f = f v"
  by (simp_all add: andThen_def)

lemma getProp_truthy: "truthy v \<Longrightarrow> \<exists>x. getProp v k = Inr x"
  by (cases v) auto

lemma appendEach_append:
  "appendEach f acc (xs @ ys) = andThen (appendEach f acc xs) (\<lambda>text'. appendEach f text' ys)"
proof (induction xs arbitrary: acc)
  case Nil
  show ?case by simp
next
  case (Cons x xs)
  show ?case by (cases "f acc x") (simp_all add: Cons.IH)
qed

lemma appendEach_strings: "appendEach (appendValue H) acc (map Str ss) = Inr (acc @ concat ss)"
  by (induction ss arbitrary: acc) (simp_all add: appendValue_def)

lemma appendPart_fragments:
  "appendPart H text part = appendEach (appendValue H) text (partFragments part)"
proof (cases "truthy part")
  case False
  then show ?thesis by (simp add: appendPart_def partFragments_def)
next
  case True
  from getProp_truthy [OF True] obtain ty where ty: "getProp part ''type'' = Inr ty" by blast
  from getProp_truthy [OF True] obtain v where v: "getProp part ''text'' = Inr v" by blast
  show ?thesis
    using True ty v
    by (cases "appendValue H text (if truthy v then v else Str [])")
       (simp_all add: appendPart_def partFragments_def)
qed

lemma appendParts_fragments:
  "appendEach (appendPart H) acc parts =
     appendEach (appendValue H) acc (concat (map partFragments parts))"
proof (induction parts arbitrary: acc)
  case Nil
  show ?case by simp
next
  case (Cons part parts)
  have "appendEach (appendPart H) acc (part # parts) =
          andThen (appendPart H acc part)
            (\<lambda>acc'. appendEach (appendValue H) acc' (concat (map partFragments parts)))"
    by (simp only: appendEach.simps Cons.IH)
  also have "\<dots> = appendEach (appendValue H) acc (concat (map partFragments (part # parts)))"
    by (simp add: appendPart_fragments appendEach_append)
  finally show ?case .
qed

lemma appendItem_fragments:
  "appendItem H text item = appendEach (appendValue H) text (itemFragments item)"
proof (cases "truthy item")
  case False
  then show ?thesis by (simp add: appendItem_def itemFragments_def)
next
  case True
  from getProp_truthy [OF True] obtain ty where ty: "getProp item ''type'' = Inr ty" by blast
  from getProp_truthy [OF True] obtain content where c: "getProp item ''content'' = Inr content" by blast
  from getProp_truthy [OF True] obtain v where v: "getProp item ''text'' = Inr v" by blast
  show ?thesis
  proof (cases "ty = Str ''message'' \<and> isArray content")
    case msg: True
    then show ?thesis
      using True ty c v
      by (cases "appendEach (appendValue H) text (concat (map partFragments (elements content)))")
         (simp_all add: appendItem_def itemFragments_def appendParts_fragments appendEach_append)
  next
    case other: False
    then show ?thesis
      using True ty c v
      by (cases "appendValue H text v") (auto simp: appendItem_def itemFragments_def)
  qed
qed

lemma appendItems_fragments:
  "appendEach (appendItem H) acc items =
     appendEach (appendValue H) acc (concat (map itemFragments items))"
proof (induction items arbitrary: acc)
  case Nil
  show ?case by simp
next
  case (Cons item items)
  have "appendEach (appendItem H) acc (item # items) =
          andThen (appendItem H acc item)
            (\<lambda>acc'. appendEach (appendValue H) acc' (concat (map itemFragments items)))"
    by (simp only: appendEach.simps Cons.IH)
  also have "\<dots> = appendEach (appendValue H) acc (concat (map itemFragments (item # items)))"
    by (simp add: appendItem_fragments appendEach_append)
  finally show ?case .
qed

text \<open>
  Claim C8, as amended. For a response that is not falsy: when its \<open>output_text\<close> is a
  string, that string is returned as it is. Otherwise, when its \<open>output\<close> is an array,
  the result is the concatenation, in the order of the output list, of the fragments of
  its items, with the white space at both ends trimmed off; the fragments of an item
  are the texts of the parts of type \<open>output_text\<close> or \<open>text\<close> of a message-type
  item, and the own text of an item whose type is \<open>output_text\<close>. When \<open>output\<close> is
  not an array the result is the empty string.
\<close>

theorem extractOutputText_fragments:
  "truthy response \<longrightarrow>
     (getProp response ''output_text'' = Inr (Str s) \<longrightarrow> extractOutputText H response = Inr s) \<and>
     ((\<forall>s'. getProp response ''output_text'' \<noteq> Inr (Str s')) \<and>
      getProp response ''output'' = Inr (Arr items) \<longrightarrow>
        extractOutputText H response =
          andThen (appendEach (appendValue H) [] (concat (map itemFragments items)))
            (\<lambda>joined. Inr (trim joined)) \<and>
        (concat (map itemFragments items) = map Str ss \<longrightarrow>
           extractOutputText H response = Inr (trim (concat ss)))) \<and>
     ((\<forall>s'. getProp response ''output_text'' \<noteq> Inr (Str s')) \<and>
      getProp response ''output'' = Inr listed \<and> \<not> isArray listed \<longrightarrow>
        extractOutputText H response = Inr [])"
proof (intro impI conjI)
  assume t: "truthy response"
  {
    assume "getProp response ''output_text'' = Inr (Str s)"
    with t show "extractOutputText H response = Inr s"
      by (simp add: extractOutputText_def)
  }
  {
    assume a: "(\<forall>s'. getProp response ''output_text'' \<noteq> Inr (Str s')) \<and>
      getProp response ''output'' = Inr (Arr items)"
    from getProp_truthy [OF t] obtain ot where ot: "getProp response ''output_text'' = Inr ot"
      by blast
    with a have "\<forall>s'. ot \<noteq> Str s'" by simp
    then have nostr: "(case ot of Str s' \<Rightarrow> f s' | _ \<Rightarrow> g) = g" for f :: "string \<Rightarrow> js_error + string" and g
      by (cases ot) auto
    show general: "extractOutputText H response =
          andThen (appendEach (appendValue H) [] (concat (map itemFragments items)))
            (\<lambda>joined. Inr (trim joined))"
      using t a ot by (simp add: extractOutputText_def nostr appendItems_fragments)
    {
      assume "concat (map itemFragments items) = map Str ss"
      then show "extractOutputText H response = Inr (trim (concat ss))"
        by (simp add: general appendEach_strings)
    }
  }
  {
    assume a: "(\<forall>s'. getProp response ''output_text'' \<noteq> Inr (Str s')) \<and>
      getProp response ''output'' = Inr listed \<and> \<not> isArray listed"
    from getProp_truthy [OF t] obtain ot where ot: "getProp response ''output_text'' = Inr ot"
      by blast
    with a have "\<forall>s'. ot \<noteq> Str s'" by simp
    then have nostr: "(case ot of Str s' \<Rightarrow> f s' | _ \<Rightarrow> g) = g" for f :: "string \<Rightarrow> js_error + string" and g
      by (cases ot) auto
    show "extractOutputText H response = Inr []"
      using t a ot by (simp add: extractOutputText_def nostr)
  }
qed

lemma twoMessages_fragments:
  "concat (map itemFragments
       [Obj [(''type'', Str ''message''),
             (''content'', Arr [Obj [(''type'', Str ''output_text''), (''text'', Str ''- **Base Layer**: tee '')],
                                Obj [(''type'', Str ''refusal''), (''refusal'', Str ''no'')]])],
        Obj [(''type'', Str ''reasoning''), (''content'', Arr [Obj [(''type'', Str ''text''), (''text'', Str ''skipped'')]])],
        Obj [(''type'', Str ''message''),
             (''content'', Arr [Obj [(''type'', Str ''text''), (''text'', Str ''and hat'')]])]])
     = map Str [''- **Base Layer**: tee '', ''and hat'']"
  by (simp add: itemFragments_def partFragments_def)

theorem extractOutputText_fragments_witness:
  "extractOutputText exampleHost (Obj [(''output_text'', Str '' as it is '')]) = Inr '' as it is '' \<and>
   extractOutputText exampleHost twoMessagesResponse = Inr ''- **Base Layer**: tee and hat'' \<and>
   extractOutputText exampleHost (Obj [(''output'', Str ''none'')]) = Inr []"
proof -
  let ?flat = "Obj [(''output_text'', Str '' as it is '')]"
  let ?none = "Obj [(''output'', Str ''none'')]"
  let ?items = "[Obj [(''type'', Str ''message''),
             (''content'', Arr [Obj [(''type'', Str ''output_text''), (''text'', Str ''- **Base Layer**: tee '')],
                                Obj [(''type'', Str ''refusal''), (''refusal'', Str ''no'')]])],
        Obj [(''type'', Str ''reasoning''), (''content'', Arr [Obj [(''type'', Str ''text''), (''text'', Str ''skipped'')]])],
        Obj [(''type'', Str ''message''),
             (''content'', Arr [Obj [(''type'', Str ''text''), (''text'', Str ''and hat'')]])]]"
  have f1: "truthy ?flat" and f2: "getProp ?flat ''output_text'' = Inr (Str '' as it is '')"
    by simp_all
  from f1 f2 extractOutputText_fragments [where response = ?flat and s = "'' as it is ''" and H = exampleHost]
  have flat: "extractOutputText exampleHost ?flat = Inr '' as it is ''"
    by blast
  have m1: "truthy twoMessagesResponse"
    and m2: "\<forall>s'. getProp twoMessagesResponse ''output_text'' \<noteq> Inr (Str s')"
    and m3: "getProp twoMessagesResponse ''output'' = Inr (Arr ?items)"
    by (simp_all add: twoMessagesResponse_def)
  from m1 m2 m3 twoMessages_fragments
    extractOutputText_fragments [where response = twoMessagesResponse and H = exampleHost
      and items = ?items and ss = "[''- **Base Layer**: tee '', ''and hat'']"]
  have "extractOutputText exampleHost twoMessagesResponse
      = Inr (trim (concat [''- **Base Layer**: tee '', ''and hat'']))"
    by blast
  moreover have "trim (concat [''- **Base Layer**: tee '', ''and hat'']) = ''- **Base Layer**: tee and hat''"
    by (simp add: trim_def isSpace_def)
  ultimately have two: "extractOutputText exampleHost twoMessagesResponse = Inr ''- **Base Layer**: tee and hat''"
    by simp
  have n1: "truthy ?none"
    and n2: "\<forall>s'. getProp ?none ''output_text'' \<noteq> Inr (Str s')"
    and n3: "getProp ?none ''output'' = Inr (Str ''none'')"
    and n4: "\<not> isArray (Str ''none'')"
    by simp_all
  from n1 n2 n3 n4 extractOutputText_fragments [where response = ?none and listed = "Str ''none''" and H = exampleHost]
  have none: "extractOutputText exampleHost ?none = Inr []"
    by blast
  from flat two none show ?thesis by blast
qed

text \<open>
  Claim C8 as the specification words it. An output item of type \<open>output_text\<close> is
  not a message-type item, yet its text is returned; and the text of a message comes
  back without the white space around it, which the plain concatenation keeps.
\<close>

theorem extractOutputText_counterexample:
  "extractOutputText exampleHost bareTextResponse = Inr ''hi'' \<and>
   claimedOutputText bareTextResponse = [] \<and>
   extractOutputText exampleHost paddedMessageResponse = Inr ''hi'' \<and>
   claimedOutputText paddedMessageResponse = '' hi ''"
proof (intro conjI)
  show "extractOutputText exampleHost bareTextResponse = Inr ''hi''"
    by (simp add: extractOutputText_def bareTextResponse_def appendItem_def appendValue_def
        trim_def isSpace_def)
  show "claimedOutputText bareTextResponse = []"
    by (simp add: claimedOutputText_def claimedItemText_def bareTextResponse_def)
  show "extractOutputText exampleHost paddedMessageResponse = Inr ''hi''"
    by (simp add: extractOutputText_def paddedMessageResponse_def appendItem_def appendPart_def
        appendValue_def trim_def isSpace_def)
  show "claimedOutputText paddedMessageResponse = '' hi ''"
    by (simp add: claimedOutputText_def claimedItemText_def claimedPartText_def paddedMessageResponse_def)
qed

lemma getApiKey_missing:
  assumes "env ''OPEN_AI_KEY'' = None \<or> env ''OPEN_AI_KEY'' = Some []"
    and "env ''OPENAI_API_KEY'' = None \<or> env ''OPENAI_API_KEY'' = Some []"
  shows "callOpenAI H env provider p = Inl (Error ''OPEN_AI_KEY is missing in .env'')"
  using assms by (auto simp: callOpenAI_def getApiKey_def)

text \<open>
  Claim C7. The relay receives \<open>POST /api/suggest\<close> with a body whose \<open>weather\<close> is
  present (truthy) and from which the prompt can be built, and neither
  \<open>OPEN_AI_KEY\<close> nor \<open>OPENAI_API_KEY\<close> is set to a non-empty value in the
  environment. Then it answers with status 500 and the JSON body
  \<open>{"error": "OPEN_AI_KEY is missing in .env"}\<close>, whatever the provider would do.
\<close>

theorem suggest_without_key:
  assumes "truthy body'" and "getProp body' ''weather'' = Inr w" and "truthy w"
    and "buildPrompt H w = Inr prompt"
    and "env ''OPEN_AI_KEY'' = None \<or> env ''OPEN_AI_KEY'' = Some []"
    and "env ''OPENAI_API_KEY'' = None \<or> env ''OPENAI_API_KEY'' = Some []"
  shows "server H env provider ''POST'' ''/api/suggest'' (Inr body')
           = Json 500 (Obj [(''error'', Str ''OPEN_AI_KEY is missing in .env'')])"
  using assms(1-4) getApiKey_missing [OF assms(5) assms(6)]
  by (simp add: server_def suggest_def)

lemma weatherBody_prompt:
  "\<exists>prompt. buildPrompt exampleHost
       (Obj [(''summary'', Str ''Clear sky''), (''temperature'', Str ''50.0''), (''feelsLike'', Str ''48.0''),
            (''humidity'', Str ''40''), (''windSpeed'', Str ''5.0''), (''windDirection'', Str ''N''),
            (''temperatureUnit'', Str ''F''), (''windUnit'', Str ''mph''),
            (''time'', Str ''2024-01-01T00:00''), (''timezone'', Str ''GMT''), (''location'', Str ''Paris'')])
     = Inr prompt"
  by (simp add: buildPrompt_def shown_def)

theorem suggest_without_key_witness:
  "server exampleHost noKeyEnv providerDown ''POST'' ''/api/suggest'' (Inr weatherBody)
     = Json 500 (Obj [(''error'', Str ''OPEN_AI_KEY is missing in .env'')])"
proof -
  from weatherBody_prompt obtain prompt where p: "buildPrompt exampleHost
       (Obj [(''summary'', Str ''Clear sky''), (''temperature'', Str ''50.0''), (''feelsLike'', Str ''48.0''),
            (''humidity'', Str ''40''), (''windSpeed'', Str ''5.0''), (''windDirection'', Str ''N''),
            (''temperatureUnit'', Str ''F''), (''windUnit'', Str ''mph''),
            (''time'', Str ''2024-01-01T00:00''), (''timezone'', Str ''GMT''), (''location'', Str ''Paris'')])
     = Inr prompt" by blast
  have t: "truthy weatherBody" by (simp add: weatherBody_def)
  have w: "getProp weatherBody ''weather'' = Inr
       (Obj [(''summary'', Str ''Clear sky''), (''temperature'', Str ''50.0''), (''feelsLike'', Str ''48.0''),
            (''humidity'', Str ''40''), (''windSpeed'', Str ''5.0''), (''windDirection'', Str ''N''),
            (''temperatureUnit'', Str ''F''), (''windUnit'', Str ''mph''),
            (''time'', Str ''2024-01-01T00:00''), (''timezone'', Str ''GMT''), (''location'', Str ''Paris'')])"
    by (simp add: weatherBody_def)
  have k1: "noKeyEnv ''OPEN_AI_KEY'' = None \<or> noKeyEnv ''OPEN_AI_KEY'' = Some []"
    by (simp add: noKeyEnv_def)
  have k2: "noKeyEnv ''OPENAI_API_KEY'' = None \<or> noKeyEnv ''OPENAI_API_KEY'' = Some []"
    by (simp add: noKeyEnv_def)
  show ?thesis
    by (rule suggest_without_key [OF t w _ p k1 k2]) simp
qed

text \<open>
  The prompt can be built for every weather object whose fields the host turns into
  strings without throwing; strings, numbers, booleans, null and missing fields never
  throw.
\<close>

lemma String_of_total:
  assumes "\<forall>v. \<exists>s. ObjectToString H v = Inr s"
  shows "\<exists>s. String_of H v = Inr s"
  using assms by (cases v) auto

lemma buildPrompt_total:
  assumes "\<forall>v. \<exists>s. ObjectToString H v = Inr s" and "truthy w"
  shows "\<exists>prompt. buildPrompt H w = Inr prompt"
proof -
  have "\<exists>s. shown H w k = Inr s" for k
    using getProp_truthy [OF assms(2), of k] String_of_total [OF assms(1)]
    by (auto simp: shown_def)
  then obtain f where "shown H w k = Inr (f k)" for k
    by metis
  then show ?thesis by (simp add: buildPrompt_def)
qed

section \<open>Properties of the advice parser\<close>

lemma parsedLines_empty: "parsedLines [] = []"
  by (simp add: parsedLines_def trim_def)

lemma adviceItems_parsedLines: "adviceItems s = map parseLine (parsedLines s)"
  by (cases "s = []") (simp_all add: adviceItems_def parsedLines_def parsedLines_empty trim_def)

text \<open>
  Claim C4. For every string the parser returns a list and no error. The list has
  exactly one item for each line of the input that is not empty after trimming, in the
  order of the lines: the item at position \<open>i\<close> is made from the \<open>i\<close>-th such line
  (trimmed, bullet removed), and when that line matches neither the emphasis pattern
  nor the bare pattern the item has an empty label and the line as its text.
\<close>

theorem adviceItems_one_per_line:
  "adviceItemsOf (Str s) = Inr (adviceItems s) \<and>
   length (adviceItems s) = length (filter (\<lambda>line. line \<noteq> []) (map trim (split_lines s))) \<and>
   (\<forall>i < length (adviceItems s).
      adviceItems s ! i =
        parseLine (stripBullet (filter (\<lambda>line. line \<noteq> []) (map trim (split_lines s)) ! i)) \<and>
      (boldMatch (stripBullet (filter (\<lambda>line. line \<noteq> []) (map trim (split_lines s)) ! i)) = None \<and>
       colonMatch (stripBullet (filter (\<lambda>line. line \<noteq> []) (map trim (split_lines s)) ! i)) = None \<longrightarrow>
         adviceItems s ! i =
           \<lparr> item_label = [],
             item_text = stripBullet (filter (\<lambda>line. line \<noteq> []) (map trim (split_lines s)) ! i) \<rparr>))"
proof (intro conjI allI impI)
  show "adviceItemsOf (Str s) = Inr (adviceItems s)"
    by (simp add: adviceItemsOf_def adviceItems_def)
  show len: "length (adviceItems s) = length (filter (\<lambda>line. line \<noteq> []) (map trim (split_lines s)))"
    by (simp add: adviceItems_parsedLines parsedLines_def)
  fix i
  assume i: "i < length (adviceItems s)"
  then show item: "adviceItems s ! i =
        parseLine (stripBullet (filter (\<lambda>line. line \<noteq> []) (map trim (split_lines s)) ! i))"
    using len by (simp add: adviceItems_parsedLines parsedLines_def)
  assume "boldMatch (stripBullet (filter (\<lambda>line. line \<noteq> []) (map trim (split_lines s)) ! i)) = None \<and>
       colonMatch (stripBullet (filter (\<lambda>line. line \<noteq> []) (map trim (split_lines s)) ! i)) = None"
  then show "adviceItems s ! i =
           \<lparr> item_label = [],
             item_text = stripBullet (filter (\<lambda>line. line \<noteq> []) (map trim (split_lines s)) ! i) \<rparr>"
    by (simp add: item parseLine_def)
qed

lemma threeLines_trimmed:
  "filter (\<lambda>line. line \<noteq> []) (map trim (split_lines (''  stay dry '' @ [CHR 0x0A, CHR 0x0A] @ ''- Base: tee'')))
     = [''stay dry'', ''- Base: tee'']"
  by (simp add: trim_def isSpace_def)

theorem adviceItems_one_per_line_witness:
  "length (adviceItems (''  stay dry '' @ [CHR 0x0A, CHR 0x0A] @ ''- Base: tee'')) = 2 \<and>
   adviceItems (''  stay dry '' @ [CHR 0x0A, CHR 0x0A] @ ''- Base: tee'') ! 0
     = \<lparr> item_label = [], item_text = ''stay dry'' \<rparr> \<and>
   adviceItems (''  stay dry '' @ [CHR 0x0A, CHR 0x0A] @ ''- Base: tee'') ! 1
     = \<lparr> item_label = ''Base'', item_text = ''tee'' \<rparr>"
proof -
  let ?s = "''  stay dry '' @ [CHR 0x0A, CHR 0x0A] @ ''- Base: tee''"
  let ?lines = "[''stay dry'', ''- Base: tee'']"
  note all = adviceItems_one_per_line [of ?s, unfolded threeLines_trimmed]
  note each = all [THEN conjunct2, THEN conjunct2, rule_format]
  from all have len: "length (adviceItems ?s) = 2" by simp
  then have i0: "0 < length (adviceItems ?s)" and i1: "1 < length (adviceItems ?s)"
    by simp_all
  have none: "boldMatch (stripBullet (?lines ! 0)) = None \<and> colonMatch (stripBullet (?lines ! 0)) = None"
    by (simp add: stripBullet_def boldMatch_def colonMatch_def)
  from each [OF i0] none
  have "adviceItems ?s ! 0 = \<lparr> item_label = [], item_text = stripBullet (?lines ! 0) \<rparr>"
    by blast
  then have first: "adviceItems ?s ! 0 = \<lparr> item_label = [], item_text = ''stay dry'' \<rparr>"
    by (simp add: stripBullet_def)
  from each [OF i1] have "adviceItems ?s ! 1 = parseLine (stripBullet (?lines ! 1))"
    by blast
  then have second: "adviceItems ?s ! 1 = \<lparr> item_label = ''Base'', item_text = ''tee'' \<rparr>"
    by (simp add: stripBullet_def isSpace_def parseLine_def boldMatch_def colonMatch_def
        restOfLine_def isLineTerminator_def)
  from len first second show ?thesis by blast
qed

section \<open>Properties of the round trip\<close>

lemma split_lines_nonempty: "split_lines s \<noteq> []"
  by (induction s) (auto split: list.splits)

lemma split_lines_plain: "CHR 0x0A \<notin> set l \<Longrightarrow> split_lines l = [l]"
  by (induction l) auto

lemma split_lines_first:
  "CHR 0x0A \<notin> set l \<Longrightarrow> split_lines (l @ CHR 0x0A # rest) = l # split_lines rest"
  by (induction l) auto

lemma split_lines_join:
  assumes "ls \<noteq> []" and "\<forall>l \<in> set ls. CHR 0x0A \<notin> set l"
  shows "split_lines (join [CHR 0x0A] ls) = ls"
  using assms
proof (induction ls)
  case Nil
  then show ?case by simp
next
  case (Cons x xs)
  show ?case
  proof (cases xs)
    case Nil
    with Cons.prems show ?thesis by (simp add: split_lines_plain)
  next
    case (Cons y ys)
    with Cons.IH Cons.prems have "split_lines (join [CHR 0x0A] (y # ys)) = y # ys"
      by simp
    with Cons Cons.prems show ?thesis by (simp add: split_lines_first)
  qed
qed

lemma split_lines_no_feed: "l \<in> set (split_lines s) \<Longrightarrow> CHR 0x0A \<notin> set l"
proof (induction s arbitrary: l)
  case Nil
  then show ?case by simp
next
  case (Cons c cs)
  show ?case
  proof (cases "c = CHR 0x0A")
    case True
    with Cons show ?thesis by auto
  next
    case False
    obtain x xs where sp: "split_lines cs = x # xs"
      using split_lines_nonempty [of cs] by (cases "split_lines cs") auto
    with Cons.prems False have "l = c # x \<or> l \<in> set xs" by simp
    then show ?thesis
    proof
      assume "l = c # x"
      moreover have "CHR 0x0A \<notin> set x" using Cons.IH [of x] sp by simp
      ultimately show ?thesis using False by simp
    next
      assume "l \<in> set xs"
      then show ?thesis using Cons.IH [of l] sp by simp
    qed
  qed
qed

lemma trim_subset: "set (trim l) \<subseteq> set l"
proof -
  have "set (trim l) \<subseteq> set (dropWhile isSpace l)"
    unfolding trim_def using set_dropWhileD [of _ isSpace "rev (dropWhile isSpace l)"] by auto
  also have "\<dots> \<subseteq> set l"
    using set_dropWhileD [of _ isSpace l] by auto
  finally show ?thesis .
qed

lemma trim_last: "trim l \<noteq> [] \<Longrightarrow> \<not> isSpace (last (trim l))"
proof -
  assume "trim l \<noteq> []"
  then have ne: "dropWhile isSpace (rev (dropWhile isSpace l)) \<noteq> []"
    by (simp add: trim_def)
  then have "\<not> isSpace (hd (dropWhile isSpace (rev (dropWhile isSpace l))))"
    by (rule hd_dropWhile)
  then show ?thesis
    using ne by (simp add: trim_def last_rev)
qed

lemma trim_id:
  assumes "r \<noteq> []" and "\<not> isSpace (hd r)" and "\<not> isSpace (last r)"
  shows "trim r = r"
proof -
  from assms(1,2) have a: "dropWhile isSpace r = r" by (cases r) auto
  from assms(1,3) have "\<not> isSpace (hd (rev r))" by (simp add: hd_rev)
  with assms(1) have "dropWhile isSpace (rev r) = rev r" by (cases "rev r") auto
  with a show ?thesis by (simp add: trim_def)
qed

lemma dropWhile_last: "dropWhile P xs \<noteq> [] \<Longrightarrow> last (dropWhile P xs) = last xs"
  by (induction xs) (auto split: if_splits)

lemma stripBullet_subset: "set (stripBullet l) \<subseteq> set l"
  using set_dropWhileD [of _ isSpace "tl l"]
  by (cases l) (auto simp: stripBullet_def)

lemma stripBullet_last: "stripBullet l \<noteq> [] \<Longrightarrow> last (stripBullet l) = last l"
  by (cases l) (auto simp: stripBullet_def dropWhile_last split: if_splits)

lemma stripBullet_id:
  assumes "r \<noteq> []" and "hd r \<noteq> CHR ''-''" and "hd r \<noteq> CHR ''*''"
  shows "stripBullet r = r"
  using assms by (cases r) (auto simp: stripBullet_def)

lemma parsedLines_shape:
  assumes "l \<in> set (parsedLines s)"
  shows "CHR 0x0A \<notin> set l \<and> (l = [] \<or> \<not> isSpace (last l))"
proof -
  from assms obtain raw where raw: "raw \<in> set (split_lines s)" "trim raw \<noteq> []" "l = stripBullet (trim raw)"
    by (auto simp: parsedLines_def)
  have "CHR 0x0A \<notin> set raw" using raw(1) by (rule split_lines_no_feed)
  then have "CHR 0x0A \<notin> set l"
    using trim_subset [of raw] stripBullet_subset [of "trim raw"] raw(3) by auto
  moreover have "l = [] \<or> \<not> isSpace (last l)"
    using raw(2,3) trim_last [of raw] stripBullet_last [of "trim raw"] by auto
  ultimately show ?thesis by simp
qed

lemma restOfLine_Some: "restOfLine s = Some t \<longleftrightarrow> t = s \<and> s \<noteq> [] \<and> list_all (\<lambda>c. \<not> isLineTerminator c) s"
  by (auto simp: restOfLine_def)

lemma spacesThenText_suffix:
  "spacesThenText r = Some t \<Longrightarrow>
     t \<noteq> [] \<and> list_all (\<lambda>c. \<not> isLineTerminator c) t \<and> (\<exists>p. r = p @ t)"
proof (induction r)
  case Nil
  then show ?case by simp
next
  case (Cons c cs)
  show ?case
  proof (cases "isSpace c \<and> spacesThenText cs \<noteq> None")
    case True
    with Cons.prems have "spacesThenText cs = Some t" by auto
    from Cons.IH [OF this] obtain p where "t \<noteq> []" "list_all (\<lambda>c. \<not> isLineTerminator c) t" "cs = p @ t"
      by blast
    then have "c # cs = (c # p) @ t" by simp
    with \<open>t \<noteq> []\<close> \<open>list_all (\<lambda>c. \<not> isLineTerminator c) t\<close> show ?thesis by blast
  next
    case False
    with Cons.prems have "restOfLine (c # cs) = Some t" by (auto split: if_splits option.splits)
    then have "t = c # cs" "list_all (\<lambda>c. \<not> isLineTerminator c) (c # cs)"
      by (simp_all add: restOfLine_Some)
    then show ?thesis by auto
  qed
qed

lemma spacesThenText_total:
  "cs \<noteq> [] \<Longrightarrow> list_all (\<lambda>c. \<not> isLineTerminator c) cs \<Longrightarrow> \<exists>t. spacesThenText cs = Some t"
  by (cases cs) (auto simp: restOfLine_def split: option.splits)

lemma spacesThenText_head:
  "spacesThenText r = Some t \<Longrightarrow> \<not> isSpace (last r) \<Longrightarrow> \<not> isSpace (hd t)"
proof (induction r)
  case Nil
  then show ?case by simp
next
  case (Cons c cs)
  show ?case
  proof (cases "isSpace c")
    case False
    with Cons.prems have "t = c # cs" by (simp add: restOfLine_Some)
    with False show ?thesis by simp
  next
    case True
    show ?thesis
    proof (cases "spacesThenText cs")
      case (Some t')
      with True Cons.prems have t: "spacesThenText cs = Some t" by simp
      then have "cs \<noteq> []" by auto
      with Cons.prems have "\<not> isSpace (last cs)" by simp
      with t show ?thesis by (rule Cons.IH)
    next
      case None
      with True Cons.prems have r: "restOfLine (c # cs) = Some t" by simp
      then have lt: "list_all (\<lambda>c. \<not> isLineTerminator c) cs" by (simp add: restOfLine_Some)
      have "cs = []"
      proof (rule ccontr)
        assume "cs \<noteq> []"
        from spacesThenText_total [OF this lt] None show False by simp
      qed
      with Cons.prems True show ?thesis by simp
    qed
  qed
qed

lemma spacesThenText_plain:
  assumes "t \<noteq> []" and "list_all (\<lambda>c. \<not> isLineTerminator c) t" and "\<not> isSpace (hd t)"
  shows "spacesThenText t = Some t"
  using assms by (cases t) (auto simp: restOfLine_def)

lemma spacesThenText_after_space:
  assumes "t \<noteq> []" and "list_all (\<lambda>c. \<not> isLineTerminator c) t" and "\<not> isSpace (hd t)"
  shows "spacesThenText (CHR '' '' # t) = Some t"
  using spacesThenText_plain [OF assms] by (simp add: isSpace_def)

lemma colonMatch_rendered:
  assumes "l \<noteq> []" and "CHR '':'' \<notin> set l"
    and "t \<noteq> []" and "list_all (\<lambda>c. \<not> isLineTerminator c) t" and "\<not> isSpace (hd t)"
  shows "colonMatch (l @ '': '' @ t) = Some (l, t)"
proof -
  have tw: "takeWhile (\<lambda>c. c \<noteq> CHR '':'') (l @ '': '' @ t) = l"
    using assms(2) by (induction l) auto
  have dw: "dropWhile (\<lambda>c. c \<noteq> CHR '':'') (l @ '': '' @ t) = '': '' @ t"
    using assms(2) by (induction l) auto
  show ?thesis
    unfolding colonMatch_def tw dw
    using assms(1) spacesThenText_after_space [OF assms(3,4,5)] by simp
qed

lemma boldMatch_no_star: "l \<noteq> [] \<Longrightarrow> hd l \<noteq> CHR ''*'' \<Longrightarrow> boldMatch (l @ rest) = None"
  by (cases l) (auto simp: boldMatch_def split: list.splits)

lemma parseLine_rendered:
  assumes "stableItem it"
  shows "parseLine (item_label it @ '': '' @ item_text it) = it"
proof -
  from assms have l: "item_label it \<noteq> []" "CHR '':'' \<notin> set (item_label it)" "hd (item_label it) \<noteq> CHR ''*''"
    by (auto simp: stableItem_def plainLabel_def split: list.splits)
  from assms have t: "item_text it \<noteq> []" "list_all (\<lambda>c. \<not> isLineTerminator c) (item_text it)"
      "\<not> isSpace (hd (item_text it))"
    by (auto simp: stableItem_def)
  have b: "boldMatch (item_label it @ '': '' @ item_text it) = None"
    by (rule boldMatch_no_star [OF l(1,3)])
  have c: "colonMatch (item_label it @ '': '' @ item_text it) = Some (item_label it, item_text it)"
    by (rule colonMatch_rendered [OF l(1,2) t])
  show ?thesis
    unfolding parseLine_def b c by simp
qed

lemma rendered_line:
  assumes "stableItem it"
  shows "CHR 0x0A \<notin> set (item_label it @ '': '' @ item_text it)"
    and "trim (item_label it @ '': '' @ item_text it) = item_label it @ '': '' @ item_text it"
    and "item_label it @ '': '' @ item_text it \<noteq> []"
    and "stripBullet (item_label it @ '': '' @ item_text it) = item_label it @ '': '' @ item_text it"
proof -
  let ?r = "item_label it @ '': '' @ item_text it"
  from assms have l: "item_label it \<noteq> []" "CHR 0x0A \<notin> set (item_label it)"
      "\<not> isSpace (hd (item_label it))" "hd (item_label it) \<noteq> CHR ''-''" "hd (item_label it) \<noteq> CHR ''*''"
    by (auto simp: stableItem_def plainLabel_def split: list.splits)
  from assms have t: "item_text it \<noteq> []" "list_all (\<lambda>c. \<not> isLineTerminator c) (item_text it)"
      "\<not> isSpace (last (item_text it))"
    by (auto simp: stableItem_def)
  from t(2) have "CHR 0x0A \<notin> set (item_text it)"
    by (auto simp: list_all_iff isLineTerminator_def)
  with l(2) show "CHR 0x0A \<notin> set ?r" by simp
  show ne: "?r \<noteq> []" using l(1) by simp
  have h: "hd ?r = hd (item_label it)" using l(1) by simp
  have e: "last ?r = last (item_text it)" using t(1) by simp
  have h1: "\<not> isSpace (hd ?r)" unfolding h by (rule l(3))
  have e1: "\<not> isSpace (last ?r)" unfolding e by (rule t(3))
  from ne h1 e1 show "trim ?r = ?r" by (rule trim_id)
  have d: "hd ?r \<noteq> CHR ''-''" unfolding h by (rule l(4))
  have s: "hd ?r \<noteq> CHR ''*''" unfolding h by (rule l(5))
  from ne d s show "stripBullet ?r = ?r" by (rule stripBullet_id)
qed

lemma adviceItems_reconstructed:
  assumes "list_all stableItem items"
  shows "adviceItems (reconstructed items) = items"
proof (cases "items = []")
  case True
  then show ?thesis by (simp add: reconstructed_def adviceItems_def)
next
  case False
  let ?render = "\<lambda>it. item_label it @ '': '' @ item_text it"
  let ?ls = "map ?render items"
  from assms have st: "\<forall>it \<in> set items. stableItem it" by (simp add: list_all_iff)
  have "?ls \<noteq> []" using False by simp
  moreover have "\<forall>l \<in> set ?ls. CHR 0x0A \<notin> set l"
    using st rendered_line(1) by auto
  ultimately have sp: "split_lines (reconstructed items) = ?ls"
    unfolding reconstructed_def by (rule split_lines_join)
  have tr: "map trim ?ls = ?ls"
    using st rendered_line(2) by (simp add: map_idI)
  have fl: "filter (\<lambda>line. line \<noteq> []) ?ls = ?ls"
    using st rendered_line(3) by (simp add: filter_id_conv)
  have sb: "map stripBullet ?ls = ?ls"
    using st rendered_line(4) by (simp add: map_idI)
  have "parsedLines (reconstructed items) = ?ls"
    unfolding parsedLines_def sp tr fl sb ..
  then have "adviceItems (reconstructed items) = map parseLine ?ls"
    by (simp only: adviceItems_parsedLines)
  also have "\<dots> = items"
    using st parseLine_rendered by (simp add: map_idI o_def)
  finally show ?thesis .
qed

lemma colonMatch_parts:
  assumes "colonMatch l = Some (lab, t)"
  shows "lab \<noteq> [] \<and> set lab \<subseteq> set l \<and> (\<exists>p r. l = p @ r \<and> spacesThenText r = Some t)"
proof -
  let ?P = "\<lambda>c. c \<noteq> CHR '':''"
  from assms have lab: "lab = takeWhile ?P l" "lab \<noteq> []"
    by (auto simp: colonMatch_def Let_def split: if_splits list.splits option.splits)
  from assms obtain c r where r: "dropWhile ?P l = c # r" "spacesThenText r = Some t"
    by (auto simp: colonMatch_def Let_def split: if_splits list.splits option.splits)
  have "l = takeWhile ?P l @ dropWhile ?P l" by simp
  with r(1) have "l = (takeWhile ?P l @ [c]) @ r" by simp
  with r(2) have "\<exists>p r. l = p @ r \<and> spacesThenText r = Some t" by blast
  moreover have "set lab \<subseteq> set l" using lab(1) set_takeWhileD [of _ ?P l] by auto
  ultimately show ?thesis using lab(2) by simp
qed

lemma boldTail_parts:
  "boldTail s = Some t \<Longrightarrow> \<exists>p r. s = p @ r \<and> spacesThenText r = Some t"
proof -
  assume a: "boldTail s = Some t"
  then obtain x y z r where "s = x # y # z # r" "spacesThenText r = Some t"
    by (auto simp: boldTail_def split: list.splits if_splits)
  then have "s = [x, y, z] @ r \<and> spacesThenText r = Some t" by simp
  then show ?thesis by blast
qed

lemma boldLabel_parts:
  "boldLabel acc r = Some (lab, t) \<Longrightarrow>
     (\<exists>l'. lab = acc @ l' \<and> l' \<noteq> [] \<and> list_all (\<lambda>c. \<not> isLineTerminator c) l') \<and>
     (\<exists>p r'. r = p @ r' \<and> spacesThenText r' = Some t)"
proof (induction r arbitrary: acc)
  case Nil
  then show ?case by simp
next
  case (Cons c cs)
  from Cons.prems have nlt: "\<not> isLineTerminator c" by (auto split: if_splits)
  show ?case
  proof (cases "boldTail cs")
    case (Some t')
    with Cons.prems nlt have eq: "lab = acc @ [c]" "t' = t" by auto
    from boldTail_parts [of cs t] Some eq(2) obtain p r' where "cs = p @ r'" "spacesThenText r' = Some t"
      by blast
    then have "c # cs = (c # p) @ r' \<and> spacesThenText r' = Some t" by simp
    then have "\<exists>p r'. c # cs = p @ r' \<and> spacesThenText r' = Some t" by blast
    moreover have "\<exists>l'. lab = acc @ l' \<and> l' \<noteq> [] \<and> list_all (\<lambda>c. \<not> isLineTerminator c) l'"
      using eq(1) nlt by auto
    ultimately show ?thesis by blast
  next
    case None
    with Cons.prems nlt have "boldLabel (acc @ [c]) cs = Some (lab, t)" by simp
    from Cons.IH [OF this] obtain l' p r' where
      l': "lab = (acc @ [c]) @ l'" "list_all (\<lambda>c. \<not> isLineTerminator c) l'" and
      r': "cs = p @ r'" "spacesThenText r' = Some t"
      by blast
    from l' nlt have "lab = acc @ (c # l') \<and> c # l' \<noteq> [] \<and> list_all (\<lambda>c. \<not> isLineTerminator c) (c # l')"
      by simp
    then have "\<exists>l'. lab = acc @ l' \<and> l' \<noteq> [] \<and> list_all (\<lambda>c. \<not> isLineTerminator c) l'" by blast
    moreover from r' have "c # cs = (c # p) @ r' \<and> spacesThenText r' = Some t" by simp
    then have "\<exists>p r'. c # cs = p @ r' \<and> spacesThenText r' = Some t" by blast
    ultimately show ?thesis by blast
  qed
qed

lemma boldMatch_parts:
  assumes "boldMatch l = Some (lab, t)"
  shows "lab \<noteq> [] \<and> CHR 0x0A \<notin> set lab \<and> (\<exists>p r. l = p @ r \<and> spacesThenText r = Some t)"
proof -
  from assms obtain x y r where l: "l = x # y # r" "boldLabel [] r = Some (lab, t)"
    by (auto simp: boldMatch_def split: list.splits if_splits)
  from boldLabel_parts [OF l(2)] obtain p r' where
    lab: "lab \<noteq> []" "list_all (\<lambda>c. \<not> isLineTerminator c) lab" and r': "r = p @ r'" "spacesThenText r' = Some t"
    by auto
  from lab(2) have "CHR 0x0A \<notin> set lab" by (auto simp: list_all_iff isLineTerminator_def)
  moreover from l(1) r' have "l = (x # y # p) @ r' \<and> spacesThenText r' = Some t" by simp
  then have "\<exists>p r. l = p @ r \<and> spacesThenText r = Some t" by blast
  ultimately show ?thesis using lab(1) by simp
qed

lemma parseLine_stable:
  assumes "l \<in> set (parsedLines s)"
    and "boldMatch l \<noteq> None \<or> colonMatch l \<noteq> None"
    and "plainLabel (item_label (parseLine l))"
  shows "stableItem (parseLine l)"
proof -
  from parsedLines_shape [OF assms(1)] have feed: "CHR 0x0A \<notin> set l" and
    tail: "l = [] \<or> \<not> isSpace (last l)" by simp_all
  have "\<exists>lab t. parseLine l = \<lparr> item_label = lab, item_text = t \<rparr> \<and> lab \<noteq> [] \<and>
          CHR 0x0A \<notin> set lab \<and> (\<exists>p r. l = p @ r \<and> spacesThenText r = Some t)"
  proof (cases "boldMatch l")
    case (Some m)
    obtain lab t where m: "m = (lab, t)" by (cases m) auto
    with Some have "parseLine l = \<lparr> item_label = lab, item_text = t \<rparr>"
      by (simp add: parseLine_def)
    with boldMatch_parts [of l lab t] Some m show ?thesis by auto
  next
    case None
    with assms(2) obtain m where c: "colonMatch l = Some m" by auto
    obtain lab t where m: "m = (lab, t)" by (cases m) auto
    with None c have "parseLine l = \<lparr> item_label = lab, item_text = t \<rparr>"
      by (simp add: parseLine_def)
    moreover from colonMatch_parts [of l lab t] c m feed
    have "lab \<noteq> [] \<and> CHR 0x0A \<notin> set lab \<and> (\<exists>p r. l = p @ r \<and> spacesThenText r = Some t)"
      by auto
    ultimately show ?thesis by blast
  qed
  then obtain lab t p r where it: "parseLine l = \<lparr> item_label = lab, item_text = t \<rparr>"
    and lab: "lab \<noteq> []" "CHR 0x0A \<notin> set lab"
    and r: "l = p @ r" "spacesThenText r = Some t"
    by blast
  from spacesThenText_suffix [OF r(2)] obtain q where
    t: "t \<noteq> []" "list_all (\<lambda>c. \<not> isLineTerminator c) t" and q: "r = q @ t"
    by blast
  from r(1) q t(1) have "l \<noteq> []" "last l = last t" "last r = last t" by simp_all
  with tail have e: "\<not> isSpace (last t)" "\<not> isSpace (last r)" by simp_all
  from spacesThenText_head [OF r(2) e(2)] have h: "\<not> isSpace (hd t)" .
  from assms(3) it have "plainLabel lab" by simp
  with it lab t e(1) h show ?thesis by (simp add: stableItem_def)
qed

text \<open>
  Claim C3, as amended. Take an input in which every line that is not empty after
  trimming matched the emphasis pattern or the bare pattern, and in which every label
  of the parse is plain: it holds no colon and does not begin with white space, \<open>-\<close>
  or \<open>*\<close>. Then parsing the reconstructed text (each item as label, colon, space and
  text, the lines joined by line feeds) gives the same list of items as the first
  parse.
\<close>

theorem reparse_plain_labels:
  "everyLineLabelled s \<and> list_all plainLabel (map item_label (adviceItems s)) \<longrightarrow>
     adviceItems (reconstructed (adviceItems s)) = adviceItems s"
proof
  assume a: "everyLineLabelled s \<and> list_all plainLabel (map item_label (adviceItems s))"
  have "stableItem (parseLine l)" if l: "l \<in> set (parsedLines s)" for l
  proof -
    from a l have m: "boldMatch l \<noteq> None \<or> colonMatch l \<noteq> None"
      by (simp add: everyLineLabelled_def list_all_iff)
    from a l have "plainLabel (item_label (parseLine l))"
      by (simp add: adviceItems_parsedLines list_all_iff)
    with l m show ?thesis by (rule parseLine_stable)
  qed
  then have "list_all stableItem (adviceItems s)"
    by (simp add: adviceItems_parsedLines list_all_iff)
  then show "adviceItems (reconstructed (adviceItems s)) = adviceItems s"
    by (rule adviceItems_reconstructed)
qed

lemma twoLayers_lines:
  "parsedLines (''- **Base Layer**: thermal shirt'' @ [CHR 0x0A] @ ''- **Accessories**: wool hat'')
     = [''**Base Layer**: thermal shirt'', ''**Accessories**: wool hat'']"
  by (simp add: parsedLines_def trim_def isSpace_def stripBullet_def)

lemma twoLayers_matches:
  "boldMatch ''**Base Layer**: thermal shirt'' = Some (''Base Layer'', ''thermal shirt'')"
  "boldMatch ''**Accessories**: wool hat'' = Some (''Accessories'', ''wool hat'')"
  by (simp_all add: boldMatch_def boldTail_def restOfLine_def isSpace_def isLineTerminator_def)

lemma twoLayers_items:
  "adviceItems (''- **Base Layer**: thermal shirt'' @ [CHR 0x0A] @ ''- **Accessories**: wool hat'')
     = [\<lparr> item_label = ''Base Layer'', item_text = ''thermal shirt'' \<rparr>,
        \<lparr> item_label = ''Accessories'', item_text = ''wool hat'' \<rparr>]"
  by (simp only: adviceItems_parsedLines twoLayers_lines list.map parseLine_def twoLayers_matches
      option.case prod.case)

theorem reparse_plain_labels_witness:
  "everyLineLabelled (''- **Base Layer**: thermal shirt'' @ [CHR 0x0A] @ ''- **Accessories**: wool hat'') \<and>
   adviceItems (''- **Base Layer**: thermal shirt'' @ [CHR 0x0A] @ ''- **Accessories**: wool hat'')
     = [\<lparr> item_label = ''Base Layer'', item_text = ''thermal shirt'' \<rparr>,
        \<lparr> item_label = ''Accessories'', item_text = ''wool hat'' \<rparr>] \<and>
   adviceItems (reconstructed
       [\<lparr> item_label = ''Base Layer'', item_text = ''thermal shirt'' \<rparr>,
        \<lparr> item_label = ''Accessories'', item_text = ''wool hat'' \<rparr>])
     = [\<lparr> item_label = ''Base Layer'', item_text = ''thermal shirt'' \<rparr>,
        \<lparr> item_label = ''Accessories'', item_text = ''wool hat'' \<rparr>]"
proof -
  let ?s = "''- **Base Layer**: thermal shirt'' @ [CHR 0x0A] @ ''- **Accessories**: wool hat''"
  have lab: "everyLineLabelled ?s"
    by (simp only: everyLineLabelled_def twoLayers_lines list.pred_inject twoLayers_matches) simp
  have plain: "list_all plainLabel (map item_label (adviceItems ?s))"
    unfolding twoLayers_items by (simp add: plainLabel_def isSpace_def)
  from lab plain reparse_plain_labels [of ?s]
  have "adviceItems (reconstructed (adviceItems ?s)) = adviceItems ?s" by blast
  then show ?thesis using lab by (simp only: twoLayers_items)
qed

text \<open>
  Claim C3 as the specification words it. The line \<open>- **a:b**: c\<close> matches the
  emphasis pattern with the label \<open>a:b\<close>; the reconstructed text is \<open>a:b: c\<close>, and
  parsing it gives the label \<open>a\<close> and the text \<open>b: c\<close>.
\<close>

theorem reparse_counterexample:
  "everyLineLabelled ''- **a:b**: c'' \<and>
   adviceItems ''- **a:b**: c'' = [\<lparr> item_label = ''a:b'', item_text = ''c'' \<rparr>] \<and>
   reconstructed (adviceItems ''- **a:b**: c'') = ''a:b: c'' \<and>
   adviceItems (reconstructed (adviceItems ''- **a:b**: c'')) = [\<lparr> item_label = ''a'', item_text = ''b: c'' \<rparr>] \<and>
   adviceItems (reconstructed (adviceItems ''- **a:b**: c'')) \<noteq> adviceItems ''- **a:b**: c''"
proof -
  have lines: "parsedLines ''- **a:b**: c'' = [''**a:b**: c'']"
    by (simp add: parsedLines_def trim_def isSpace_def stripBullet_def)
  have m: "boldMatch ''**a:b**: c'' = Some (''a:b'', ''c'')"
    by (simp add: boldMatch_def boldTail_def restOfLine_def isSpace_def isLineTerminator_def)
  have lab: "everyLineLabelled ''- **a:b**: c''"
    by (simp only: everyLineLabelled_def lines list.pred_inject m) simp
  have items: "adviceItems ''- **a:b**: c'' = [\<lparr> item_label = ''a:b'', item_text = ''c'' \<rparr>]"
    by (simp only: adviceItems_parsedLines lines list.map parseLine_def m option.case prod.case)
  have rebuilt: "reconstructed [\<lparr> item_label = ''a:b'', item_text = ''c'' \<rparr>] = ''a:b: c''"
    by (simp add: reconstructed_def)
  have again: "adviceItems ''a:b: c'' = [\<lparr> item_label = ''a'', item_text = ''b: c'' \<rparr>]"
    by (simp add: adviceItems_def trim_def isSpace_def stripBullet_def parseLine_def boldMatch_def
        colonMatch_def restOfLine_def isLineTerminator_def)
  show ?thesis
    using lab by (simp add: items rebuilt again)
qed

end
